theory Spec2Isabelle
  imports Complex_Main
begin

section \<open>Source text\<close>

text \<open>
  The engine works on JavaScript strings. A text is modelled as a \<^typ>\<open>string\<close>, one
  \<^typ>\<open>char\<close> per code unit, so the model covers the texts whose code units are below
  256. Within that range the white space of \<^verbatim>\<open>trim()\<close> and of the regular
  expression class \<^verbatim>\<open>\s\<close> is tab, line feed, vertical tab, form feed, carriage
  return, space and the no-break space; the class \<^verbatim>\<open>\w\<close> is
  \<^verbatim>\<open>[A-Za-z0-9_]\<close>; and \<^verbatim>\<open>.\<close> matches everything but line feed and carriage
  return.
\<close>

definition lowerChars :: string where
  "lowerChars = ''abcdefghijklmnopqrstuvwxyz''"

definition upperChars :: string where
  "upperChars = ''ABCDEFGHIJKLMNOPQRSTUVWXYZ''"

definition digitChars :: string where
  "digitChars = ''0123456789''"

definition isLower :: "char \<Rightarrow> bool" where
  "isLower c = (c \<in> set lowerChars)"

definition isAlnum :: "char \<Rightarrow> bool" where
  "isAlnum c = (c \<in> set lowerChars \<or> c \<in> set upperChars \<or> c \<in> set digitChars)"

definition isWordChar :: "char \<Rightarrow> bool" where
  "isWordChar c = (isAlnum c \<or> c = CHR ''_'')"

definition isIdentStart :: "char \<Rightarrow> bool" where
  "isIdentStart c = (c \<in> set lowerChars \<or> c \<in> set upperChars \<or> c = CHR ''_'')"

definition isSpace :: "char \<Rightarrow> bool" where
  "isSpace c = (c \<in> set [CHR 0x09, CHR 0x0A, CHR 0x0B, CHR 0x0C, CHR 0x0D, CHR 0x20, CHR 0xA0])"

definition isLineTerminator :: "char \<Rightarrow> bool" where
  "isLineTerminator c = (c = CHR 0x0A \<or> c = CHR 0x0D)"

definition isQuote :: "char \<Rightarrow> bool" where
  "isQuote c = (c = CHR 0x22 \<or> c = CHR 0x27)"

text \<open>\<^verbatim>\<open>code.split('\n')\<close>: the pieces between line feeds; never an empty list.\<close>

fun splitLines :: "string \<Rightarrow> string list" where
  "splitLines [] = [[]]"
| "splitLines (c # cs) =
     (if c = CHR 0x0A then [] # splitLines cs
      else (case splitLines cs of [] \<Rightarrow> [[c]] | l # ls \<Rightarrow> (c # l) # ls))"

definition trim :: "string \<Rightarrow> string" where
  "trim s = rev (dropWhile isSpace (rev (dropWhile isSpace s)))"

definition startsWith :: "string \<Rightarrow> string \<Rightarrow> bool" where
  "startsWith s p = (take (length p) s = p)"

definition endsWith :: "string \<Rightarrow> string \<Rightarrow> bool" where
  "endsWith s p = (length p \<le> length s \<and> drop (length s - length p) s = p)"

text \<open>\<^verbatim>\<open>s.includes(p)\<close>: \<open>p\<close> starts at some position of \<open>s\<close>.\<close>

fun strIncludes :: "string \<Rightarrow> string \<Rightarrow> bool" where
  "strIncludes [] p = (p = [])"
| "strIncludes (c # cs) p = (startsWith (c # cs) p \<or> strIncludes cs p)"

text \<open>\<^verbatim>\<open>s.indexOf(p)\<close>: the first position where \<open>p\<close> starts, or \<open>-1\<close>.\<close>

fun indexOf :: "string \<Rightarrow> string \<Rightarrow> int" where
  "indexOf [] p = (if p = [] then 0 else - 1)"
| "indexOf (c # cs) p =
     (if startsWith (c # cs) p then 0
      else (let i = indexOf cs p in if i < 0 then - 1 else i + 1))"

text \<open>\<^verbatim>\<open>s.includes(p, position)\<close>: the search starts at \<open>position\<close>, clamped to the text.\<close>

definition strIncludesFrom :: "string \<Rightarrow> string \<Rightarrow> int \<Rightarrow> bool" where
  "strIncludesFrom s p position = strIncludes (drop (nat position) s) p"

text \<open>\<^verbatim>\<open>xs.findIndex(P)\<close>: the index of the first element that satisfies \<open>P\<close>, or \<open>-1\<close>.\<close>

fun findIndex :: "('a \<Rightarrow> bool) \<Rightarrow> 'a list \<Rightarrow> int" where
  "findIndex P [] = - 1"
| "findIndex P (x # xs) =
     (if P x then 0 else (let i = findIndex P xs in if i < 0 then - 1 else i + 1))"

definition countChar :: "char \<Rightarrow> string \<Rightarrow> nat" where
  "countChar c s = length (filter (\<lambda>d. d = c) s)"

section \<open>Regular expressions\<close>

text \<open>
  A regular expression of the source is modelled by its anchored matcher: given whether
  the character before the position is a word character (for \<^verbatim>\<open>\b\<close>) and the rest of
  the text from the position, the length of the match that starts there, if there is one.
  \<open>matchAll\<close> is \<^verbatim>\<open>String.prototype.match\<close> with the \<^verbatim>\<open>g\<close> flag: the matches from
  left to right, each search resuming where the previous match ended. The third argument
  counts the characters still covered by the previous match. Every expression of the
  engine consumes at least one character, so no match is empty.
\<close>

type_synonym anchored = "bool \<Rightarrow> string \<Rightarrow> nat option"

fun matchAll :: "anchored \<Rightarrow> bool \<Rightarrow> nat \<Rightarrow> string \<Rightarrow> string list" where
  "matchAll re prevWord k [] = []"
| "matchAll re prevWord (Suc k) (c # cs) = matchAll re (isWordChar c) k cs"
| "matchAll re prevWord 0 (c # cs) =
     (case re prevWord (c # cs) of
        None \<Rightarrow> matchAll re (isWordChar c) 0 cs
      | Some n \<Rightarrow> take n (c # cs) # matchAll re (isWordChar c) (n - 1) cs)"

text \<open>\<^verbatim>\<open>code.match(re) || []\<close> for a global expression \<open>re\<close>.\<close>

definition regexMatches :: "anchored \<Rightarrow> string \<Rightarrow> string list" where
  "regexMatches re code = matchAll re False 0 code"

text \<open>The first of the alternatives \<open>kws\<close> that the text starts with.\<close>

fun firstPrefix :: "string list \<Rightarrow> string \<Rightarrow> nat option" where
  "firstPrefix [] s = None"
| "firstPrefix (kw # kws) s = (if startsWith s kw then Some (length kw) else firstPrefix kws s)"

text \<open>
  \<^verbatim>\<open>/\b\w+\s*\([^)]*$/g\<close>: a word at a word boundary, white space, an opening
  parenthesis and no closing parenthesis up to the end of the text (there is no \<^verbatim>\<open>m\<close>
  flag, so \<^verbatim>\<open>$\<close> is the end of the text). The greedy runs cannot give characters back:
  what follows a shorter run would be a word character or a white space, not what the
  expression needs next.
\<close>

definition reUnclosedCall :: anchored where
  "reUnclosedCall prevWord s =
     (if \<not> prevWord \<and> takeWhile isWordChar s \<noteq> [] \<and>
         (case dropWhile isSpace (dropWhile isWordChar s) of
            [] \<Rightarrow> False
          | c # rest \<Rightarrow> c = CHR ''('' \<and> CHR '')'' \<notin> set rest)
      then Some (length s) else None)"

text \<open>\<^verbatim>\<open>/["'][^"']*$/g\<close>: a quote with no quote after it up to the end of the text.\<close>

definition reUnclosedQuote :: anchored where
  "reUnclosedQuote prevWord s =
     (case s of
        [] \<Rightarrow> None
      | c # rest \<Rightarrow> if isQuote c \<and> filter isQuote rest = [] then Some (length s) else None)"

text \<open>One alternative of \<^verbatim>\<open>/var\s+(\w+)|let\s+(\w+)|const\s+(\w+)/g\<close>.\<close>

definition declarationAfter :: "string \<Rightarrow> string \<Rightarrow> nat option" where
  "declarationAfter kw s =
     (if startsWith s kw then
        (let rest = drop (length kw) s;
             spaces = takeWhile isSpace rest;
             name = takeWhile isWordChar (dropWhile isSpace rest)
         in if spaces \<noteq> [] \<and> name \<noteq> []
            then Some (length kw + length spaces + length name) else None)
      else None)"

definition reDeclaration :: anchored where
  "reDeclaration prevWord s =
     (case declarationAfter ''var'' s of
        Some n \<Rightarrow> Some n
      | None \<Rightarrow>
          (case declarationAfter ''let'' s of
             Some n \<Rightarrow> Some n
           | None \<Rightarrow> declarationAfter ''const'' s))"

text \<open>\<^verbatim>\<open>/\b[a-zA-Z_]\w*\b/g\<close>: a whole word that does not start with a digit.\<close>

definition reIdentifier :: anchored where
  "reIdentifier prevWord s =
     (case s of
        [] \<Rightarrow> None
      | c # rest \<Rightarrow>
          if \<not> prevWord \<and> isIdentStart c then Some (Suc (length (takeWhile isWordChar rest)))
          else None)"

text \<open>\<^verbatim>\<open>/if|else|for|while|switch|catch/g\<close>.\<close>

definition controlKeywords :: "string list" where
  "controlKeywords = [''if'', ''else'', ''for'', ''while'', ''switch'', ''catch'']"

definition reControlKeyword :: anchored where
  "reControlKeyword prevWord s = firstPrefix controlKeywords s"

text \<open>\<^verbatim>\<open>/\([^)]*\)/g\<close>: from an opening parenthesis to the next closing one.\<close>

definition reParenGroup :: anchored where
  "reParenGroup prevWord s =
     (case s of
        [] \<Rightarrow> None
      | c # rest \<Rightarrow>
          if c = CHR ''('' \<and> CHR '')'' \<in> set rest
          then Some (Suc (Suc (length (takeWhile (\<lambda>d. d \<noteq> CHR '')'') rest))))
          else None)"

text \<open>\<^verbatim>\<open>/[a-z][a-zA-Z0-9]*/g\<close>.\<close>

definition reLowerToken :: anchored where
  "reLowerToken prevWord s =
     (case s of
        [] \<Rightarrow> None
      | c # rest \<Rightarrow> if isLower c then Some (Suc (length (takeWhile isAlnum rest))) else None)"

text \<open>\<^verbatim>\<open>/for|while/g\<close>.\<close>

definition reLoopKeyword :: anchored where
  "reLoopKeyword prevWord s = firstPrefix [''for'', ''while''] s"

text \<open>
  The last position of \<open>s\<close> where \<open>kw\<close> starts: where the greedy \<^verbatim>\<open>.*\<close> stops giving
  characters back.
\<close>

fun lastIndexOf :: "string \<Rightarrow> string \<Rightarrow> nat option" where
  "lastIndexOf [] kw = (if kw = [] then Some 0 else None)"
| "lastIndexOf (c # cs) kw =
     (case lastIndexOf cs kw of
        Some j \<Rightarrow> Some (Suc j)
      | None \<Rightarrow> if startsWith (c # cs) kw then Some 0 else None)"

text \<open>One alternative of \<^verbatim>\<open>/for.*for|while.*while/g\<close>: \<open>kw\<close>, then \<open>kw\<close> again on the same line.\<close>

definition keywordTwice :: "string \<Rightarrow> string \<Rightarrow> nat option" where
  "keywordTwice kw s =
     (if startsWith s kw then
        (case lastIndexOf (takeWhile (\<lambda>c. \<not> isLineTerminator c) (drop (length kw) s)) kw of
           None \<Rightarrow> None
         | Some j \<Rightarrow> Some (length kw + j + length kw))
      else None)"

definition reNestedLoop :: anchored where
  "reNestedLoop prevWord s =
     (case keywordTwice ''for'' s of
        Some n \<Rightarrow> Some n
      | None \<Rightarrow> keywordTwice ''while'' s)"

section \<open>Objects and property lookup\<close>

text \<open>
  The lookup tables of the engine are object literals, read with \<^verbatim>\<open>table[key]\<close> for
  keys that come from the request. An object literal inherits from
  \<^verbatim>\<open>Object.prototype\<close>, so a key that names a member of that prototype finds the
  inherited member where the literal has no property of its own. \<open>Inherited name\<close> stands
  for such a member: a built-in function (or the prototype itself, for
  \<^verbatim>\<open>__proto__\<close>), which is truthy and has none of the properties the tables hold.
  \<open>objectPrototypeKeys\<close> are the property names of \<^verbatim>\<open>Object.prototype\<close> in the
  runtime the engine runs on (ECMAScript, with its Annex B accessors).
\<close>

datatype jsval =
    Undefined
  | Str string
  | StrList "string list"
  | Obj "(string \<times> jsval) list"
  | Inherited string

definition objectPrototypeKeys :: "string list" where
  "objectPrototypeKeys =
     [''constructor'', ''__defineGetter__'', ''__defineSetter__'', ''hasOwnProperty'',
      ''__lookupGetter__'', ''__lookupSetter__'', ''isPrototypeOf'', ''propertyIsEnumerable'',
      ''toString'', ''valueOf'', ''__proto__'', ''toLocaleString'']"

text \<open>What \<^verbatim>\<open>||\<close> and \<^verbatim>\<open>if\<close> test.\<close>

fun truthy :: "jsval \<Rightarrow> bool" where
  "truthy Undefined = False"
| "truthy (Str s) = (s \<noteq> [])"
| "truthy (StrList xs) = True"
| "truthy (Obj kvs) = True"
| "truthy (Inherited n) = True"

definition inheritedProp :: "string \<Rightarrow> jsval" where
  "inheritedProp k = (if k \<in> set objectPrototypeKeys then Inherited k else Undefined)"

text \<open>
  \<^verbatim>\<open>v?.[k]\<close>: the own property, else the inherited one, else \<^verbatim>\<open>undefined\<close>. The
  engine reads strings and string lists by no key, and reads an inherited member by a
  finding's message only, which is never one of the member's own property names; the
  model gives those lookups the members of \<^verbatim>\<open>Object.prototype\<close> alone.
\<close>

fun getProp :: "jsval \<Rightarrow> string \<Rightarrow> jsval" where
  "getProp Undefined k = Undefined"
| "getProp (Obj kvs) k = (case map_of kvs k of Some v \<Rightarrow> v | None \<Rightarrow> inheritedProp k)"
| "getProp (Str s) k = inheritedProp k"
| "getProp (StrList xs) k = inheritedProp k"
| "getProp (Inherited n) k = inheritedProp k"

text \<open>\<^verbatim>\<open>a || b\<close>.\<close>

definition orElse :: "jsval \<Rightarrow> jsval \<Rightarrow> jsval" where
  "orElse a b = (if truthy a then a else b)"

section \<open>Findings and their fixes\<close>

text \<open>
  A finding's \<open>line\<close> is a number or the text \<^verbatim>\<open>'Multiple lines'\<close>. Before
  \<open>generateFix\<close> its \<open>fix\<close> is the text of a suggested fix; afterwards it is the
  object with \<open>before\<close>, \<open>after\<close> and \<open>explanation\<close>.
\<close>

datatype lineRef = LineNo int | LineText string

record fixObject =
  before :: jsval
  after :: jsval
  explanation :: jsval

record 'f bug =
  type :: string
  message :: string
  line :: lineRef
  fix' :: 'f

type_synonym rawFinding = "string bug"
type_synonym finding = "fixObject bug"

definition fixEntry :: "string \<Rightarrow> string \<Rightarrow> string \<Rightarrow> jsval" where
  "fixEntry b a e = Obj [(''before'', Str b), (''after'', Str a), (''explanation'', Str e)]"

definition fixesTable :: jsval where
  \<open>fixesTable = Obj [
     (''syntax'', Obj [
        (''javascript'', Obj [
           (''Missing semicolon'', fixEntry
              ''let result = 5 + 3''
              ''let result = 5 + 3;''
              ''Add a semicolon at the end of the statement''),
           (''Unmatched curly braces'', fixEntry
              ''if (true) {\<newline>    console.log("test")\<newline>''
              ''if (true) {\<newline>    console.log("test");\<newline>}''
              ''Ensure all opening braces have matching closing braces'')]),
        (''python'', Obj [
           (''Incorrect indentation'', fixEntry
              ''def test():\<newline>print("test")''
              ''def test():\<newline>    print("test")''
              ''Use 4 spaces for indentation in Python'')]),
        (''java'', Obj [
           (''Missing semicolon'', fixEntry
              ''System.out.println("Hello World")''
              ''System.out.println("Hello World");''
              ''Add a semicolon at the end of the statement'')]),
        (''cpp'', Obj [
           (''Missing semicolon'', fixEntry
              ''cout << "Hello World"''
              ''cout << "Hello World";''
              ''Add a semicolon at the end of the statement'')])]),
     (''runtime'', Obj [
        (''javascript'', Obj [
           (''Potential undefined variable'', fixEntry
              ''console.log(myVariable)''
              ''let myVariable = "value";\<newline>console.log(myVariable);''
              ''Declare variables before using them'')]),
        (''python'', Obj [
           (''Potential division by zero'', fixEntry
              ''result = number / divisor''
              ''if divisor != 0:\<newline>    result = number / divisor\<newline>else:\<newline>    print("Error: Division by zero")''
              ''Add a check for zero before division'')]),
        (''java'', Obj [
           (''Potential null pointer exception'', fixEntry
              ''object.method()''
              ''if (object != null) {\<newline>    object.method();\<newline>}''
              ''Add null check before accessing object methods'')]),
        (''cpp'', Obj [
           (''Potential memory leak'', fixEntry
              ''int* ptr = new int(5)''
              ''int* ptr = new int(5);\<newline>// ... use ptr ...\<newline>delete ptr;''
              ''Always free allocated memory with delete'')])]),
     (''logical'', Obj [
        (''Potential infinite loop'', fixEntry
           ''while(true) {\<newline>    // code\<newline>}''
           ''let condition = true;\<newline>while(condition) {\<newline>    // code\<newline>    condition = false; // Add termination condition\<newline>}''
           ''Add a proper termination condition to the loop''),
        (''Unreachable code'', fixEntry
           ''return value;\<newline>console.log("This will never run");''
           ''console.log("This will run");\<newline>return value;''
           ''Move the return statement to the end of the function'')]),
     (''security'', Obj [
        (''Potential SQL injection vulnerability'', fixEntry
           ''query = "SELECT * FROM users WHERE id = " + userInput''
           ''const query = "SELECT * FROM users WHERE id = ?";\<newline>const params = [userInput];''
           ''Use parameterized queries to prevent SQL injection''),
        (''Potential XSS vulnerability'', fixEntry
           ''element.innerHTML = userInput''
           ''element.textContent = userInput;''
           ''Use textContent instead of innerHTML to prevent XSS attacks'')])]\<close>

text \<open>
  \<open>generateFix\<close>: the catalog entry under the finding's type and the language, or under
  the type alone, looked up by the message; the suggested fix text where no entry is
  found.
\<close>

definition generateFix :: "rawFinding \<Rightarrow> string \<Rightarrow> finding" where
  "generateFix bug language =
     (let languageFixes =
            orElse (getProp (getProp fixesTable (type bug)) language)
                   (getProp fixesTable (type bug));
          found = orElse (getProp languageFixes (message bug))
                    (Obj [(''before'', Str ''Original code''),
                          (''after'', Str (fix' bug)),
                          (''explanation'', Str (fix' bug))])
      in \<lparr>type = type bug, message = message bug, line = line bug,
          fix' = \<lparr>before = getProp found ''before'',
                   after = getProp found ''after'',
                   explanation = getProp found ''explanation''\<rparr>\<rparr>)"

section \<open>The bug finder\<close>

text \<open>
  The operations of the engine that can raise. Reading \<^verbatim>\<open>[0]\<close> of the result of
  \<^verbatim>\<open>String.prototype.match\<close>, which is \<^verbatim>\<open>null\<close> when the expression does not match,
  raises a \<^verbatim>\<open>TypeError\<close>. Spreading a list into the arguments of one call, as in
  \<^verbatim>\<open>bugs.push(...list)\<close>, raises a \<^verbatim>\<open>RangeError\<close> when the list has more elements than
  the runtime accepts as arguments of a call.
\<close>

datatype error = TypeError | RangeError

text \<open>
  \<^verbatim>\<open>target.push(...items)\<close>. The bound on the arguments of a call belongs to the
  runtime and stands nowhere in the source: it is the parameter \<open>limit\<close> of the model,
  the greatest number of elements that one call can spread.
\<close>

definition pushSpread :: "nat \<Rightarrow> 'a list \<Rightarrow> 'a list \<Rightarrow> error + 'a list" where
  "pushSpread limit target items =
     (if limit < length items then Inl RangeError else Inr (target @ items))"

text \<open>
  \<^verbatim>\<open>lines.forEach((line, index) => ...)\<close> with a callback that pushes findings: the
  findings pushed, in the order of the lines.
\<close>

definition forEachLine :: "(string \<Rightarrow> nat \<Rightarrow> 'a list) \<Rightarrow> string list \<Rightarrow> 'a list" where
  "forEachLine f lines = concat (map (\<lambda>(index, line). f line index) (enumerate 0 lines))"

text \<open>The line number the checkers compute: \<^verbatim>\<open>lines.findIndex(P) + 1\<close>.\<close>

definition lineOf :: "(string \<Rightarrow> bool) \<Rightarrow> string \<Rightarrow> lineRef" where
  "lineOf P code = LineNo (findIndex P (splitLines code) + 1)"

definition jsMissingSemicolon :: "string \<Rightarrow> bool" where
  "jsMissingSemicolon aLine =
     (let trimmedLine = trim aLine in
        trimmedLine \<noteq> [] \<and>
        \<not> endsWith trimmedLine '';'' \<and>
        \<not> endsWith trimmedLine ''{'' \<and>
        \<not> endsWith trimmedLine ''}'' \<and>
        \<not> strIncludes trimmedLine ''if'' \<and>
        \<not> strIncludes trimmedLine ''for'' \<and>
        \<not> strIncludes trimmedLine ''while'' \<and>
        \<not> strIncludes trimmedLine ''function'' \<and>
        \<not> startsWith trimmedLine ''//'' \<and>
        \<not> startsWith trimmedLine ''/*'' \<and>
        \<not> startsWith trimmedLine ''*'' \<and>
        \<not> startsWith trimmedLine ''const'' \<and>
        \<not> startsWith trimmedLine ''let'' \<and>
        \<not> startsWith trimmedLine ''var'')"

definition javaMissingSemicolon :: "string \<Rightarrow> bool" where
  "javaMissingSemicolon aLine =
     (let trimmedLine = trim aLine in
        trimmedLine \<noteq> [] \<and>
        \<not> endsWith trimmedLine '';'' \<and>
        \<not> endsWith trimmedLine ''{'' \<and>
        \<not> endsWith trimmedLine ''}'' \<and>
        \<not> strIncludes trimmedLine ''if'' \<and>
        \<not> strIncludes trimmedLine ''for'' \<and>
        \<not> strIncludes trimmedLine ''while'' \<and>
        \<not> strIncludes trimmedLine ''class'' \<and>
        \<not> startsWith trimmedLine ''//'' \<and>
        \<not> startsWith trimmedLine ''/*'' \<and>
        \<not> startsWith trimmedLine ''*'')"

definition cppMissingSemicolon :: "string \<Rightarrow> bool" where
  "cppMissingSemicolon aLine =
     (let trimmedLine = trim aLine in
        trimmedLine \<noteq> [] \<and>
        \<not> endsWith trimmedLine '';'' \<and>
        \<not> endsWith trimmedLine ''{'' \<and>
        \<not> endsWith trimmedLine ''}'' \<and>
        \<not> strIncludes trimmedLine ''if'' \<and>
        \<not> strIncludes trimmedLine ''for'' \<and>
        \<not> strIncludes trimmedLine ''while'' \<and>
        \<not> strIncludes trimmedLine ''class'' \<and>
        \<not> startsWith trimmedLine ''//'' \<and>
        \<not> startsWith trimmedLine ''/*'' \<and>
        \<not> startsWith trimmedLine ''*'')"

definition missingSemicolonAt :: "nat \<Rightarrow> string \<Rightarrow> finding" where
  "missingSemicolonAt index language =
     generateFix \<lparr>type = ''syntax'', message = ''Missing semicolon'',
                  line = LineNo (int index + 1),
                  fix' = ''Add semicolon at the end of the statement''\<rparr> language"

definition unclosedCallFindings :: "string \<Rightarrow> string \<Rightarrow> finding list" where
  "unclosedCallFindings code language =
     map (\<lambda>call.
            generateFix \<lparr>type = ''syntax'',
                         message = ''Missing closing parenthesis in function call'',
                         line = lineOf (\<lambda>line. strIncludes line call) code,
                         fix' = ''Add closing parenthesis to complete the function call''\<rparr>
              language)
       (regexMatches reUnclosedCall code)"

definition checkSyntaxJavascript :: "string \<Rightarrow> string \<Rightarrow> finding list" where
  "checkSyntaxJavascript code language =
     forEachLine (\<lambda>line index.
        if jsMissingSemicolon line then [missingSemicolonAt index language] else [])
       (splitLines code)
     @ (let openBrackets = countChar (CHR ''{'') code;
            closeBrackets = countChar (CHR ''}'') code
        in if openBrackets \<noteq> closeBrackets
           then [generateFix \<lparr>type = ''syntax'', message = ''Unmatched curly braces'',
                              line = LineText ''Multiple lines'',
                              fix' = ''Check and match all opening and closing braces''\<rparr>
                   language]
           else [])
     @ unclosedCallFindings code language
     @ map (\<lambda>quote.
              generateFix \<lparr>type = ''syntax'', message = ''Unclosed string literal'',
                           line = lineOf (\<lambda>line. strIncludes line quote) code,
                           fix' = ''Add closing quote to complete the string''\<rparr> language)
         (regexMatches reUnclosedQuote code)"

text \<open>
  \<^verbatim>\<open>line.match(/^\s*/)\<close>, then \<^verbatim>\<open>[0]\<close>: the expression matches the leading white
  space of any line, also the empty one, so the result is never \<^verbatim>\<open>null\<close>. The rule
  compares the length of that white space with the multiples of 4 and nothing else: the
  variable \<^verbatim>\<open>currentIndent\<close> that the source declares before the loop is never read.
\<close>

definition matchLeadingSpace :: "string \<Rightarrow> string option" where
  "matchLeadingSpace aLine = Some (takeWhile isSpace aLine)"

fun indentationFindings :: "string \<Rightarrow> nat \<Rightarrow> string list \<Rightarrow> error + finding list" where
  "indentationFindings language index [] = Inr []"
| "indentationFindings language index (aLine # rest) =
     (case matchLeadingSpace aLine of
        None \<Rightarrow> Inl TypeError
      | Some m \<Rightarrow>
          (case indentationFindings language (Suc index) rest of
             Inl e \<Rightarrow> Inl e
           | Inr errors \<Rightarrow>
               Inr ((if length m mod 4 \<noteq> 0
                     then [generateFix \<lparr>type = ''syntax'', message = ''Incorrect indentation'',
                                        line = LineNo (int index + 1),
                                        fix' = ''Use 4 spaces for indentation''\<rparr> language]
                     else []) @ errors)))"

definition controlStructures :: "string list" where
  "controlStructures = [''if'', ''for'', ''while'', ''def'', ''class'', ''else'', ''elif'']"

definition missingColonFindings :: "string \<Rightarrow> string list \<Rightarrow> finding list" where
  "missingColonFindings language lines =
     forEachLine (\<lambda>line index.
        (let trimmedLine = trim line in
           concat (map (\<lambda>structure.
             if startsWith trimmedLine structure \<and> \<not> endsWith trimmedLine '':''
             then [generateFix \<lparr>type = ''syntax'',
                                message = ''Missing colon after '' @ structure @ '' statement'',
                                line = LineNo (int index + 1),
                                fix' = ''Add colon after the statement''\<rparr> language]
             else []) controlStructures)))
       lines"

definition checkSyntaxPython :: "string \<Rightarrow> string \<Rightarrow> error + finding list" where
  "checkSyntaxPython code language =
     (case indentationFindings language 0 (splitLines code) of
        Inl e \<Rightarrow> Inl e
      | Inr indentation \<Rightarrow>
          Inr (indentation
               @ missingColonFindings language (splitLines code)
               @ unclosedCallFindings code language))"

definition checkSyntaxJava :: "string \<Rightarrow> string \<Rightarrow> finding list" where
  "checkSyntaxJava code language =
     forEachLine (\<lambda>line index.
        if javaMissingSemicolon line then [missingSemicolonAt index language] else [])
       (splitLines code)
     @ (if \<not> strIncludes code ''public class''
        then [generateFix \<lparr>type = ''syntax'', message = ''Missing public class declaration'',
                           line = LineNo 1,
                           fix' = ''Add public class declaration''\<rparr> language]
        else [])
     @ (if \<not> strIncludes code ''public static void main''
        then [generateFix \<lparr>type = ''syntax'', message = ''Missing main method'',
                           line = LineText ''Multiple lines'',
                           fix' = ''Add public static void main method''\<rparr> language]
        else [])"

definition checkSyntaxCpp :: "string \<Rightarrow> string \<Rightarrow> finding list" where
  "checkSyntaxCpp code language =
     forEachLine (\<lambda>line index.
        if cppMissingSemicolon line then [missingSemicolonAt index language] else [])
       (splitLines code)
     @ (if strIncludes code ''cout'' \<and> \<not> strIncludes code ''#include <iostream>''
        then [generateFix \<lparr>type = ''syntax'', message = ''Missing iostream include'',
                           line = LineNo 1,
                           fix' = ''Add #include <iostream> at the beginning of the file''\<rparr>
                language]
        else [])
     @ (if strIncludes code ''cout'' \<and> \<not> strIncludes code ''using namespace std;''
        then [generateFix \<lparr>type = ''syntax'', message = ''Missing namespace declaration'',
                           line = LineText ''Multiple lines'',
                           fix' = ''Add using namespace std; after includes''\<rparr> language]
        else [])"

text \<open>The \<^verbatim>\<open>switch\<close> on the language has no default: any other value adds nothing.\<close>

definition checkSyntaxErrors :: "string \<Rightarrow> string \<Rightarrow> error + finding list" where
  "checkSyntaxErrors code language =
     (if language = ''javascript'' then Inr (checkSyntaxJavascript code language)
      else if language = ''python'' then checkSyntaxPython code language
      else if language = ''java'' then Inr (checkSyntaxJava code language)
      else if language = ''cpp'' then Inr (checkSyntaxCpp code language)
      else Inr [])"

definition undefinedVariableFindings :: "string \<Rightarrow> string \<Rightarrow> finding list" where
  "undefinedVariableFindings code language =
     (let variables = regexMatches reDeclaration code;
          usedVars = regexMatches reIdentifier code
      in concat (map (\<lambda>varName.
           if \<not> list_ex (\<lambda>v. strIncludes v varName) variables
           then [generateFix \<lparr>type = ''runtime'', message = ''Potential undefined variable'',
                              line = lineOf (\<lambda>line. strIncludes line varName) code,
                              fix' = ''Declare variable '' @ varName @ '' before using it''\<rparr>
                   language]
           else []) usedVars))"

definition checkRuntimeErrors :: "string \<Rightarrow> string \<Rightarrow> finding list" where
  "checkRuntimeErrors code language =
     (if language = ''javascript'' then undefinedVariableFindings code language
      else if language = ''python'' then
        (if strIncludes code ''/''
         then [generateFix \<lparr>type = ''runtime'', message = ''Potential division by zero'',
                            line = lineOf (\<lambda>line. strIncludes line ''/'') code,
                            fix' = ''Add check for zero before division''\<rparr> language]
         else [])
      else if language = ''java'' then
        (if strIncludes code ''.'' \<and> \<not> strIncludes code ''null''
         then [generateFix \<lparr>type = ''runtime'', message = ''Potential null pointer exception'',
                            line = lineOf (\<lambda>line. strIncludes line ''.'') code,
                            fix' = ''Add null check before accessing object methods''\<rparr> language]
         else [])
      else if language = ''cpp'' then
        (if strIncludes code ''new '' \<and> \<not> strIncludes code ''delete ''
         then [generateFix \<lparr>type = ''runtime'', message = ''Potential memory leak'',
                            line = lineOf (\<lambda>line. strIncludes line ''new '') code,
                            fix' = ''Add delete statement to free allocated memory''\<rparr> language]
         else [])
      else [])"

definition checkLogicalErrors :: "string \<Rightarrow> string \<Rightarrow> finding list" where
  "checkLogicalErrors code language =
     (if strIncludes code ''while(true)'' \<or> strIncludes code ''for(;;)''
      then [generateFix \<lparr>type = ''logical'', message = ''Potential infinite loop'',
                         line = lineOf (\<lambda>line. strIncludes line ''while(true)'' \<or>
                                                strIncludes line ''for(;;)'') code,
                         fix' = ''Add proper loop termination condition''\<rparr> language]
      else [])
     @ (if strIncludes code ''return'' \<and>
           strIncludesFrom code ''return'' (indexOf code ''return'' + 7)
        then [generateFix \<lparr>type = ''logical'',
                           message = ''Unreachable code after return statement'',
                           line = lineOf (\<lambda>line. strIncludes line ''return'') code,
                           fix' = ''Remove code after return statement or restructure logic''\<rparr>
                language]
        else [])"

definition checkSecurityIssues :: "string \<Rightarrow> string \<Rightarrow> finding list" where
  "checkSecurityIssues code language =
     (if strIncludes code ''SELECT'' \<or> strIncludes code ''INSERT'' \<or> strIncludes code ''UPDATE''
      then [generateFix \<lparr>type = ''security'',
                         message = ''Potential SQL injection vulnerability'',
                         line = lineOf (\<lambda>line. strIncludes line ''SELECT'' \<or>
                                                strIncludes line ''INSERT'' \<or>
                                                strIncludes line ''UPDATE'') code,
                         fix' = ''Use parameterized queries or prepared statements''\<rparr> language]
      else [])
     @ (if strIncludes code ''innerHTML'' \<or> strIncludes code ''document.write''
        then [generateFix \<lparr>type = ''security'', message = ''Potential XSS vulnerability'',
                           line = lineOf (\<lambda>line. strIncludes line ''innerHTML'' \<or>
                                                  strIncludes line ''document.write'') code,
                           fix' = ''Use textContent instead of innerHTML or sanitize input''\<rparr>
                language]
        else [])"

text \<open>
  The findings of the four checkers, in the order syntax, runtime, logical, security. Each
  checker runs and its list is appended with \<^verbatim>\<open>bugs.push(...list)\<close> before the next
  checker runs; a list longer than the runtime's bound on arguments raises. The memory of
  the runtime is not modelled.
\<close>

definition analyzePotentialBugs :: "nat \<Rightarrow> string \<Rightarrow> string \<Rightarrow> error + finding list" where
  "analyzePotentialBugs limit code language =
     (case checkSyntaxErrors code language of
        Inl e \<Rightarrow> Inl e
      | Inr syntaxErrors \<Rightarrow>
          (case pushSpread limit [] syntaxErrors of
             Inl e \<Rightarrow> Inl e
           | Inr bugs1 \<Rightarrow>
               (case pushSpread limit bugs1 (checkRuntimeErrors code language) of
                  Inl e \<Rightarrow> Inl e
                | Inr bugs2 \<Rightarrow>
                    (case pushSpread limit bugs2 (checkLogicalErrors code language) of
                       Inl e \<Rightarrow> Inl e
                     | Inr bugs3 \<Rightarrow>
                         pushSpread limit bugs3 (checkSecurityIssues code language)))))"

section \<open>Metrics\<close>

text \<open>The metric values \<^verbatim>\<open>'Low'\<close>, \<^verbatim>\<open>'Medium'\<close> and \<^verbatim>\<open>'High'\<close>.\<close>

datatype level = Low | Medium | High

fun levelRank :: "level \<Rightarrow> nat" where
  "levelRank Low = 0"
| "levelRank Medium = 1"
| "levelRank High = 2"

text \<open>
  The value of the local variable \<^verbatim>\<open>complexity\<close> of \<open>calculateComplexity\<close> after its
  three additions: control keywords, opening braces, parenthesised groups.
\<close>

definition complexityCount :: "string \<Rightarrow> nat" where
  "complexityCount code =
     0 + length (regexMatches reControlKeyword code)
       + countChar (CHR ''{'') code
       + length (regexMatches reParenGroup code)"

definition calculateComplexity :: "string \<Rightarrow> string \<Rightarrow> level" where
  "calculateComplexity code language =
     (let complexity = complexityCount code in
        if complexity > 20 then High
        else if complexity > 10 then Medium
        else Low)"

text \<open>
  The averages and shares below are computed by the source in floating point, and only
  compared with a count or a constant; the model makes the same comparisons on the exact
  rational values, which decide them the same way for counts of the size a text can have.
\<close>

definition calculateMaintainability :: "string \<Rightarrow> level" where
  "calculateMaintainability code =
     (let lines = splitLines code;
          avgLineLength = (of_nat (sum_list (map length lines)) :: rat) / of_nat (length lines);
          longLines = length (filter (\<lambda>line. length line > 80) lines)
      in if avgLineLength > 100 \<or> (of_nat longLines :: rat) > of_nat (length lines) * (2 / 10)
         then Low
         else if avgLineLength > 80 \<or> (of_nat longLines :: rat) > of_nat (length lines) * (1 / 10)
         then Medium
         else High)"

definition calculateReadability :: "string \<Rightarrow> level" where
  "calculateReadability code =
     (let lines = splitLines code;
          indentationConsistency =
            list_all (\<lambda>line. startsWith line ''  '' \<or> startsWith line [CHR 0x09] \<or> trim line = [])
              lines;
          variableNaming = regexMatches reLowerToken code;
          descriptiveNames = length (filter (\<lambda>name. length name > 3) variableNaming)
      in if \<not> indentationConsistency \<or>
            (of_nat descriptiveNames :: rat) < of_nat (length variableNaming) * (7 / 10)
         then Low
         else if (of_nat descriptiveNames :: rat) < of_nat (length variableNaming) * (9 / 10)
         then Medium
         else High)"

definition calculateEfficiency :: "string \<Rightarrow> level" where
  "calculateEfficiency code =
     (let lines = splitLines code;
          loops = length (regexMatches reLoopKeyword code);
          nestedLoops = length (regexMatches reNestedLoop code)
      in if nestedLoops > 0 then Low
         else if (of_nat loops :: rat) > of_nat (length lines) * (2 / 10) then Medium
         else High)"

section \<open>Suggestions and best practices\<close>

record example =
  exampleBefore :: string
  exampleAfter :: string

record suggestion =
  suggestionMessage :: string
  suggestionExample :: example

definition suggest :: "string \<Rightarrow> string \<Rightarrow> string \<Rightarrow> suggestion" where
  "suggest m b a =
     \<lparr>suggestionMessage = m, suggestionExample = \<lparr>exampleBefore = b, exampleAfter = a\<rparr>\<rparr>"

definition languageSuggestions :: "string \<Rightarrow> string \<Rightarrow> suggestion list" where
  \<open>languageSuggestions code language =
     (if language = ''javascript'' then
        (if strIncludes code ''var ''
         then [suggest ''Use const or let instead of var for better scoping''
                 ''var counter = 0;\<newline>var name = "John";''
                 ''const name = "John";\<newline>let counter = 0;'']
         else [])
        @ (if strIncludes code ''function()'' \<or> strIncludes code ''function ()''
           then [suggest ''Consider using arrow functions for better readability''
                   ''function multiply(a, b) {\<newline>    return a * b;\<newline>}''
                   ''const multiply = (a, b) => a * b;'']
           else [])
        @ (if strIncludes code ''=='' \<or> strIncludes code ''!=''
           then [suggest ''Use strict equality operators (=== and !==) instead of loose equality''
                   ''if (value == "5") {\<newline>    console.log("Equal");\<newline>}''
                   ''if (value === "5") {\<newline>    console.log("Equal");\<newline>}'']
           else [])
      else if language = ''python'' then
        (if strIncludes code ''print(''
         then [suggest ''Consider using logging instead of print statements''
                 ''print("Error occurred")''
                 ''import logging\<newline>logging.error("Error occurred")'']
         else [])
        @ (if strIncludes code ''global ''
           then [suggest ''Avoid using global variables, consider passing values as parameters''
                   ''global counter\<newline>def increment():\<newline>    global counter\<newline>    counter += 1''
                   ''def increment(counter):\<newline>    return counter + 1'']
           else [])
      else if language = ''java'' then
        (if \<not> strIncludes code ''public class''
         then [suggest ''Add proper access modifiers to classes and methods''
                 ''class Calculator {\<newline>    int add(int a, int b) {\<newline>        return a + b;\<newline>    }\<newline>}''
                 ''public class Calculator {\<newline>    public int add(int a, int b) {\<newline>        return a + b;\<newline>    }\<newline>}'']
         else [])
      else if language = ''cpp'' then
        (if strIncludes code ''using namespace std;''
         then [suggest ''Avoid using namespace std, use specific using declarations instead''
                 ''using namespace std;\<newline>cout << "Hello";''
                 ''using std::cout;\<newline>cout << "Hello";'']
         else [])
      else [])\<close>

definition generateSuggestions :: "string \<Rightarrow> string \<Rightarrow> suggestion list" where
  \<open>generateSuggestions code language =
     (if \<not> strIncludes code ''//'' \<and> \<not> strIncludes code ''/*''
      then [suggest ''Add comments to explain complex logic and important sections''
              ''function calculateTotal(items) {\<newline>    return items.reduce((sum, item) => sum + item.price, 0);\<newline>}''
              ''// Calculate the total price of all items in the cart\<newline>function calculateTotal(items) {\<newline>    // Use reduce to sum up all item prices\<newline>    return items.reduce((sum, item) => sum + item.price, 0);\<newline>}'']
      else [])
     @ (if \<not> strIncludes code ''try'' \<and> \<not> strIncludes code ''catch''
        then [suggest ''Implement proper error handling with try-catch blocks''
                ''function divide(a, b) {\<newline>    return a / b;\<newline>}''
                ''function divide(a, b) {\<newline>    try {\<newline>        if (b === 0) throw new Error("Division by zero");\<newline>        return a / b;\<newline>    } catch (error) {\<newline>        console.error("Error:", error.message);\<newline>        return null;\<newline>    }\<newline>}'']
        else [])
     @ (if strIncludes code ''  '' \<and> strIncludes code [CHR 0x09]
        then [suggest ''Use consistent indentation (either spaces or tabs, not both)''
                (''function example() {\<newline>'' @ [CHR 0x09] @ ''console.log("tab");\<newline>  console.log("spaces");\<newline>}'')
                ''function example() {\<newline>    console.log("consistent");\<newline>    console.log("spaces");\<newline>}'']
        else [])
     @ (let variableNames = regexMatches reLowerToken code;
            shortNames = filter (\<lambda>name. length name < 3) variableNames
        in if length shortNames > 0
           then [suggest ''Use more descriptive variable names (avoid single or double letter names)''
                   ''let x = 5;\<newline>let y = 10;\<newline>let z = x + y;''
                   ''let firstNumber = 5;\<newline>let secondNumber = 10;\<newline>let sum = firstNumber + secondNumber;'']
           else [])
     @ languageSuggestions code language
     @ (if strIncludes code ''for'' \<and> strIncludes code ''for''
        then [suggest ''Consider optimizing nested loops for better performance''
                ''for (let i = 0; i < array.length; i++) {\<newline>    for (let j = 0; j < array.length; j++) {\<newline>        console.log(array[i][j]);\<newline>    }\<newline>}''
                ''const length = array.length;\<newline>for (let i = 0; i < length; i++) {\<newline>    for (let j = 0; j < length; j++) {\<newline>        console.log(array[i][j]);\<newline>    }\<newline>}'']
        else [])
     @ (if strIncludes code ''eval('' \<or> strIncludes code ''Function(''
        then [suggest ''Avoid using eval() or Function() constructor as they can lead to security vulnerabilities''
                ''eval(userInput);''
                ''// Use safer alternatives\<newline>const result = parseFloat(userInput);\<newline>if (!isNaN(result)) {\<newline>    // Process the number\<newline>}'']
        else [])\<close>

definition javascriptPractices :: "string list" where
  "javascriptPractices =
     [''Use const for values that won't be reassigned'',
      ''Use arrow functions for callbacks'',
      ''Implement proper error handling'',
      ''Use template literals for string interpolation'',
      ''Follow the principle of least privilege'']"

definition practices :: jsval where
  "practices = Obj [
     (''javascript'', StrList javascriptPractices),
     (''python'', StrList [
        ''Follow PEP 8 style guide'',
        ''Use virtual environments'',
        ''Implement proper exception handling'',
        ''Use type hints for better code clarity'',
        ''Write docstrings for functions and classes'']),
     (''java'', StrList [
        ''Follow Java naming conventions'',
        ''Use appropriate access modifiers'',
        ''Implement proper exception handling'',
        ''Use interfaces for abstraction'',
        ''Follow SOLID principles'']),
     (''cpp'', StrList [
        ''Use smart pointers instead of raw pointers'',
        ''Follow RAII principles'',
        ''Use const where appropriate'',
        ''Implement proper memory management'',
        ''Use modern C++ features''])]"

text \<open>\<^verbatim>\<open>practices[language] || practices.javascript\<close>.\<close>

definition generateBestPractices :: "string \<Rightarrow> jsval" where
  "generateBestPractices language =
     orElse (getProp practices language) (getProp practices ''javascript'')"

section \<open>The report\<close>

text \<open>
  The number \<^verbatim>\<open>(a / b) * 100\<close> for two counts. No division raises: \<^verbatim>\<open>0 / 0\<close> is
  \<^verbatim>\<open>NaN\<close> and a positive count over zero is \<^verbatim>\<open>Infinity\<close>, and both stay what they
  are when multiplied by 100. Otherwise the result is a finite double, rounded after
  the division and again after the multiplication. The model does not compute doubles:
  \<open>Percent a b\<close>, with \<open>b\<close> positive, stands for that double, which the two counts
  determine; it is 0 when \<open>a\<close> is 0.
\<close>

datatype jsnumber = NaN | Infinity | Percent nat nat

definition percentOf :: "nat \<Rightarrow> nat \<Rightarrow> jsnumber" where
  "percentOf a b = (if b = 0 then (if a = 0 then NaN else Infinity) else Percent a b)"

record codeAnalysis =
  language :: string
  totalLines :: nat
  commentLines :: nat
  functionCount :: nat
  complexity :: level
  codeToCommentRatio :: jsnumber

record metrics =
  maintainability :: level
  readability :: level
  efficiency :: level

record bugTypes =
  syntax' :: nat
  runtime :: nat
  logical :: nat
  security :: nat

record debugging =
  bugs :: "finding list"
  bugCount :: nat
  bugTypes :: bugTypes

record report =
  codeAnalysis :: codeAnalysis
  suggestions :: "suggestion list"
  bestPractices :: jsval
  metrics :: metrics
  debugging :: debugging

definition isCommentLine :: "string \<Rightarrow> bool" where
  "isCommentLine aLine =
     (startsWith (trim aLine) ''//'' \<or>
      startsWith (trim aLine) ''/*'' \<or>
      startsWith (trim aLine) ''*'' \<or>
      startsWith (trim aLine) ''#'')"

definition isFunctionLine :: "string \<Rightarrow> bool" where
  "isFunctionLine aLine =
     (strIncludes aLine ''function'' \<or>
      strIncludes aLine ''def '' \<or>
      strIncludes aLine ''class '')"

text \<open>
  The engine's entry point. Beside the code and the language of the source it takes the
  runtime's bound on the arguments of a call, which the bug finder depends on.
\<close>

definition analyzeCode :: "nat \<Rightarrow> string \<Rightarrow> string \<Rightarrow> error + report" where
  "analyzeCode limit code lang =
     (let lines = splitLines code;
          totalLinesV = length lines;
          commentLinesV = length (filter isCommentLine lines);
          functionCountV = length (filter isFunctionLine lines);
          complexityV = calculateComplexity code lang;
          suggestionsV = generateSuggestions code lang;
          bestPracticesV = generateBestPractices lang
      in case analyzePotentialBugs limit code lang of
           Inl e \<Rightarrow> Inl e
         | Inr potentialBugs \<Rightarrow>
             Inr \<lparr>codeAnalysis =
                    \<lparr>language = lang,
                     totalLines = totalLinesV,
                     commentLines = commentLinesV,
                     functionCount = functionCountV,
                     complexity = complexityV,
                     codeToCommentRatio = percentOf commentLinesV totalLinesV\<rparr>,
                  suggestions = suggestionsV,
                  bestPractices = bestPracticesV,
                  metrics =
                    \<lparr>maintainability = calculateMaintainability code,
                     readability = calculateReadability code,
                     efficiency = calculateEfficiency code\<rparr>,
                  debugging =
                    \<lparr>bugs = potentialBugs,
                     bugCount = length potentialBugs,
                     bugTypes =
                       \<lparr>syntax' = length (filter (\<lambda>bug. type bug = ''syntax'') potentialBugs),
                         runtime = length (filter (\<lambda>bug. type bug = ''runtime'') potentialBugs),
                         logical = length (filter (\<lambda>bug. type bug = ''logical'') potentialBugs),
                         security = length (filter (\<lambda>bug. type bug = ''security'') potentialBugs)\<rparr>\<rparr>\<rparr>)"

section \<open>Notions of the specification\<close>

text \<open>The languages with rules of their own.\<close>

definition knownLanguages :: "string list" where
  "knownLanguages = [''javascript'', ''python'', ''java'', ''cpp'']"

text \<open>A non-empty text, as opposed to \<^verbatim>\<open>undefined\<close>, an object or the empty string.\<close>

fun nonEmptyText :: "jsval \<Rightarrow> bool" where
  "nonEmptyText (Str s) = (s \<noteq> [])"
| "nonEmptyText Undefined = False"
| "nonEmptyText (StrList xs) = False"
| "nonEmptyText (Obj kvs) = False"
| "nonEmptyText (Inherited n) = False"

definition hasNonEmptyFix :: "finding \<Rightarrow> bool" where
  "hasNonEmptyFix f =
     (nonEmptyText (before (fix' f)) \<and>
      nonEmptyText (after (fix' f)) \<and>
      nonEmptyText (explanation (fix' f)))"

text \<open>
  What the checkers hand to \<open>generateFix\<close>: a suggested fix text that is not empty, and
  a message that names neither a member of \<^verbatim>\<open>Object.prototype\<close>, nor a field of a
  catalog entry, nor a language.
\<close>

definition plainMessage :: "string \<Rightarrow> bool" where
  "plainMessage m =
     (m \<notin> set objectPrototypeKeys \<and>
      m \<notin> set [''before'', ''after'', ''explanation''] \<and>
      m \<notin> set knownLanguages)"

definition wellFormedRaw :: "rawFinding \<Rightarrow> bool" where
  "wellFormedRaw bug = (fix' bug \<noteq> [] \<and> plainMessage (message bug))"

text \<open>
  An object is a fix entry when its three fields are non-empty texts. An object is a
  message source when every property a plain message can name is a fix entry.
\<close>

definition isFixEntry :: "jsval \<Rightarrow> bool" where
  "isFixEntry v =
     (nonEmptyText (getProp v ''before'') \<and>
      nonEmptyText (getProp v ''after'') \<and>
      nonEmptyText (getProp v ''explanation''))"

fun messageSource :: "jsval \<Rightarrow> bool" where
  "messageSource (Obj kvs) = list_all (\<lambda>(k, v). \<not> plainMessage k \<or> isFixEntry v) kvs"
| "messageSource Undefined = True"
| "messageSource (Str s) = True"
| "messageSource (StrList xs) = True"
| "messageSource (Inherited n) = True"

fun nestedMessageSource :: "jsval \<Rightarrow> bool" where
  "nestedMessageSource (Obj kvs) =
     (messageSource (Obj kvs) \<and> list_all (\<lambda>(k, v). messageSource v) kvs)"
| "nestedMessageSource Undefined = True"
| "nestedMessageSource (Str s) = True"
| "nestedMessageSource (StrList xs) = True"
| "nestedMessageSource (Inherited n) = True"

definition isUnmatchedBraces :: "finding \<Rightarrow> bool" where
  "isUnmatchedBraces f = (type f = ''syntax'' \<and> message f = ''Unmatched curly braces'')"

definition isMissingSemicolon :: "finding \<Rightarrow> bool" where
  "isMissingSemicolon f = (type f = ''syntax'' \<and> message f = ''Missing semicolon'')"

text \<open>
  The missing-terminator rule in the words of the specification, for a list of control
  keywords: the line is not empty after trimming, ends with none of \<^verbatim>\<open>; { }\<close>,
  contains none of the keywords, and starts with no comment marker and no declaration
  keyword.
\<close>

definition missesTerminator :: "string list \<Rightarrow> string \<Rightarrow> bool" where
  "missesTerminator keywords aLine =
     (trim aLine \<noteq> [] \<and>
      \<not> list_ex (\<lambda>e. endsWith (trim aLine) e) ['';'', ''{'', ''}''] \<and>
      \<not> list_ex (\<lambda>k. strIncludes (trim aLine) k) keywords \<and>
      \<not> list_ex (\<lambda>m. startsWith (trim aLine) m) [''//'', ''/*'', ''*''] \<and>
      \<not> list_ex (\<lambda>d. startsWith (trim aLine) d) [''const'', ''let'', ''var''])"

text \<open>The positions of a text where a given text starts.\<close>

definition occurrencesOf :: "string \<Rightarrow> string \<Rightarrow> nat list" where
  "occurrencesOf s p = filter (\<lambda>i. startsWith (drop i s) p) [0..<Suc (length s)]"

text \<open>
  The findings of the missing-terminator rule for javascript, by the indices of the
  offending lines.
\<close>

definition semicolonPart :: "string \<Rightarrow> string \<Rightarrow> finding list" where
  "semicolonPart code lang =
     map (\<lambda>i. missingSemicolonAt i lang)
       (filter (\<lambda>i. jsMissingSemicolon (splitLines code ! i)) [0..<length (splitLines code)])"


text \<open>The finding of the brace rule.\<close>

definition bracesFinding :: "string \<Rightarrow> finding" where
  "bracesFinding lang =
     generateFix \<lparr>type = ''syntax'', message = ''Unmatched curly braces'',
                  line = LineText ''Multiple lines'',
                  fix' = ''Check and match all opening and closing braces''\<rparr> lang"

section \<open>When the engine returns\<close>

lemma splitLines_not_Nil: "splitLines s \<noteq> []"
  by (induction s) (auto split: list.splits)

lemma generateFix_type: "type (generateFix bug lang) = type bug"
  by (simp add: generateFix_def Let_def)

lemma generateFix_message: "message (generateFix bug lang) = message bug"
  by (simp add: generateFix_def Let_def)

lemma generateFix_line: "line (generateFix bug lang) = line bug"
  by (simp add: generateFix_def Let_def)

lemma indentationFindings_returns:
  "\<exists>fs. indentationFindings lang index ls = Inr fs"
proof (induction ls arbitrary: index)
  case Nil
  show ?case by simp
next
  case (Cons l ls)
  from Cons.IH [of "Suc index"] obtain fs where "indentationFindings lang (Suc index) ls = Inr fs" ..
  then show ?case by (simp add: matchLeadingSpace_def)
qed

lemma checkSyntaxPython_returns: "\<exists>fs. checkSyntaxPython code lang = Inr fs"
proof -
  obtain fs where "indentationFindings lang 0 (splitLines code) = Inr fs"
    using indentationFindings_returns by blast
  then show ?thesis by (simp add: checkSyntaxPython_def)
qed

lemma checkSyntaxErrors_returns: "\<exists>fs. checkSyntaxErrors code lang = Inr fs"
  by (auto simp: checkSyntaxErrors_def checkSyntaxPython_returns)

lemma pushSpread_Inr:
  "pushSpread limit target items = Inr fs \<Longrightarrow> fs = target @ items \<and> length items \<le> limit"
  by (auto simp: pushSpread_def split: if_splits)

lemma analyzePotentialBugs_Inr:
  assumes "analyzePotentialBugs limit code lang = Inr fs"
  shows "\<exists>ss. checkSyntaxErrors code lang = Inr ss \<and>
     fs = ss @ checkRuntimeErrors code lang @ checkLogicalErrors code lang
          @ checkSecurityIssues code lang"
  using assms
  by (auto simp: analyzePotentialBugs_def split: sum.splits dest!: pushSpread_Inr)

lemma analyzePotentialBugs_within:
  assumes "checkSyntaxErrors code lang = Inr ss"
    and "length ss \<le> limit"
    and "length (checkRuntimeErrors code lang) \<le> limit"
    and "length (checkLogicalErrors code lang) \<le> limit"
    and "length (checkSecurityIssues code lang) \<le> limit"
  shows "analyzePotentialBugs limit code lang =
     Inr (ss @ checkRuntimeErrors code lang @ checkLogicalErrors code lang
          @ checkSecurityIssues code lang)"
  using assms by (simp add: analyzePotentialBugs_def pushSpread_def)


lemma analyzeCode_Inr:
  assumes "analyzePotentialBugs limit code lang = Inr fs"
  shows "\<exists>r. analyzeCode limit code lang = Inr r \<and> bugs (debugging r) = fs
     \<and> bugCount (debugging r) = length fs
     \<and> syntax' (bugTypes (debugging r)) = length (filter (\<lambda>bug. type bug = ''syntax'') fs)
     \<and> runtime (bugTypes (debugging r)) = length (filter (\<lambda>bug. type bug = ''runtime'') fs)
     \<and> logical (bugTypes (debugging r)) = length (filter (\<lambda>bug. type bug = ''logical'') fs)
     \<and> security (bugTypes (debugging r)) = length (filter (\<lambda>bug. type bug = ''security'') fs)
     \<and> totalLines (codeAnalysis r) = length (splitLines code)
     \<and> codeToCommentRatio (codeAnalysis r) =
         percentOf (length (filter isCommentLine (splitLines code))) (length (splitLines code))
     \<and> bestPractices r = generateBestPractices lang"
  using assms by (simp add: analyzeCode_def Let_def)

lemma analyzeCode_Inl:
  assumes "analyzePotentialBugs limit code lang = Inl e"
  shows "analyzeCode limit code lang = Inl e"
  using assms by (simp add: analyzeCode_def Let_def)

lemma analyzeCode_bugs:
  assumes "analyzeCode limit code lang = Inr r"
  shows "analyzePotentialBugs limit code lang = Inr (bugs (debugging r))"
proof (cases "analyzePotentialBugs limit code lang")
  case (Inl e)
  then have "analyzeCode limit code lang = Inl e" by (rule analyzeCode_Inl)
  with assms show ?thesis by simp
next
  case (Inr fs)
  from analyzeCode_Inr [OF Inr] assms have "bugs (debugging r) = fs" by auto
  with Inr show ?thesis by simp
qed

text \<open>
  Within the bound the engine returns a report: when no checker finds more than the
  runtime can spread, nothing raises. The text always has at least one line, so the
  ratio of the report is a finite number.
\<close>

lemma analyzeCode_returns_within:
  assumes "\<And>ss. checkSyntaxErrors code lang = Inr ss \<Longrightarrow> length ss \<le> limit"
    and "length (checkRuntimeErrors code lang) \<le> limit"
    and "length (checkLogicalErrors code lang) \<le> limit"
    and "length (checkSecurityIssues code lang) \<le> limit"
  shows "\<exists>r c. analyzeCode limit code lang = Inr r \<and>
           codeToCommentRatio (codeAnalysis r) = Percent c (totalLines (codeAnalysis r)) \<and>
           0 < totalLines (codeAnalysis r)"
proof -
  obtain ss where ss: "checkSyntaxErrors code lang = Inr ss"
    using checkSyntaxErrors_returns by blast
  have "analyzePotentialBugs limit code lang =
     Inr (ss @ checkRuntimeErrors code lang @ checkLogicalErrors code lang
          @ checkSecurityIssues code lang)"
    using ss assms(1) [OF ss] assms(2-4) by (rule analyzePotentialBugs_within)
  from analyzeCode_Inr [OF this] obtain r where
    r: "analyzeCode limit code lang = Inr r" and
    total: "totalLines (codeAnalysis r) = length (splitLines code)" and
    ratio: "codeToCommentRatio (codeAnalysis r) =
      percentOf (length (filter isCommentLine (splitLines code))) (length (splitLines code))"
    by blast
  have "length (splitLines code) \<noteq> 0"
    using splitLines_not_Nil by simp
  then show ?thesis
    using r total ratio by (auto simp: percentOf_def)
qed

text \<open>For the empty text the ratio of a report is the double of \<^verbatim>\<open>(0 / 1) * 100\<close>.\<close>

lemma analyzeCode_empty_ratio:
  assumes "analyzeCode limit [] lang = Inr r"
  shows "codeToCommentRatio (codeAnalysis r) = Percent 0 1"
proof -
  have "analyzePotentialBugs limit [] lang = Inr (bugs (debugging r))"
    using assms by (rule analyzeCode_bugs)
  from analyzeCode_Inr [OF this] assms have
    "codeToCommentRatio (codeAnalysis r) =
      percentOf (length (filter isCommentLine (splitLines []))) (length (splitLines []))"
    by auto
  then show ?thesis
    by (simp add: percentOf_def isCommentLine_def trim_def startsWith_def)
qed

section \<open>Every fix is filled in\<close>

lemma inheritedProp_plain: "plainMessage m \<Longrightarrow> inheritedProp m = Undefined"
  by (simp add: plainMessage_def inheritedProp_def)

lemma inheritedProp_cases: "inheritedProp k = Undefined \<or> inheritedProp k = Inherited k"
  by (simp add: inheritedProp_def)

lemma getProp_Obj_cases:
  "getProp (Obj kvs) k = inheritedProp k \<or> (k, getProp (Obj kvs) k) \<in> set kvs"
  by (auto split: option.splits dest: map_of_SomeD)

lemma messageSource_lookup:
  assumes "messageSource v" and "plainMessage m"
  shows "getProp v m = Undefined \<or> isFixEntry (getProp v m)"
proof (cases v)
  case (Obj kvs)
  show ?thesis
  proof (cases "map_of kvs m")
    case None
    then show ?thesis using Obj assms(2) by (simp add: inheritedProp_plain)
  next
    case (Some e)
    then have "(m, e) \<in> set kvs" by (rule map_of_SomeD)
    then have "isFixEntry e" using assms Obj by (auto simp: list_all_iff)
    then show ?thesis using Obj Some by simp
  qed
qed (use assms in \<open>simp_all add: inheritedProp_plain\<close>)

lemma nested_lookup:
  assumes "nestedMessageSource v"
  shows "messageSource (getProp v k)"
proof (cases v)
  case (Obj kvs)
  from getProp_Obj_cases [of kvs k] show ?thesis
  proof
    assume "getProp (Obj kvs) k = inheritedProp k"
    then show ?thesis using Obj inheritedProp_cases [of k] by auto
  next
    assume "(k, getProp (Obj kvs) k) \<in> set kvs"
    then show ?thesis using assms Obj by (auto simp: list_all_iff)
  qed
qed (use inheritedProp_cases [of k] in auto)

lemma plain_keys:
  "\<not> plainMessage ''before''" "\<not> plainMessage ''after''" "\<not> plainMessage ''explanation''"
  "\<not> plainMessage ''javascript''" "\<not> plainMessage ''python''" "\<not> plainMessage ''java''"
  "\<not> plainMessage ''cpp''"
  by (simp_all add: plainMessage_def knownLanguages_def)

lemma fixEntry_isFixEntry:
  "b \<noteq> [] \<Longrightarrow> a \<noteq> [] \<Longrightarrow> e \<noteq> [] \<Longrightarrow> isFixEntry (fixEntry b a e)"
  by (simp add: isFixEntry_def fixEntry_def)

lemma fixEntry_source: "messageSource (fixEntry b a e)"
  by (simp add: fixEntry_def plain_keys)

lemma fixesTable_nested:
  "\<exists>top. fixesTable = Obj top \<and> list_all (\<lambda>(k, v). nestedMessageSource v) top"
  by (simp add: fixesTable_def plain_keys fixEntry_isFixEntry fixEntry_source)

lemma nested_messageSource: "nestedMessageSource v \<Longrightarrow> messageSource v"
  by (cases v) simp_all

lemma fixesTable_lookup_nested: "nestedMessageSource (getProp fixesTable t)"
proof -
  obtain top where top: "fixesTable = Obj top"
    and all: "list_all (\<lambda>(k, v). nestedMessageSource v) top"
    using fixesTable_nested by blast
  from getProp_Obj_cases [of top t] show ?thesis
  proof
    assume "getProp (Obj top) t = inheritedProp t"
    then show ?thesis using top inheritedProp_cases [of t] by auto
  next
    assume "(t, getProp (Obj top) t) \<in> set top"
    then show ?thesis using all top by (auto simp: list_all_iff)
  qed
qed

lemma languageFixes_source:
  "messageSource (orElse (getProp (getProp fixesTable t) l) (getProp fixesTable t))"
  using fixesTable_lookup_nested [of t]
  by (simp add: orElse_def nested_lookup nested_messageSource)

lemma truthy_not_Undefined: "truthy v \<Longrightarrow> v \<noteq> Undefined"
  by auto

lemma generateFix_nonEmpty:
  assumes "wellFormedRaw bug"
  shows "hasNonEmptyFix (generateFix bug lang)"
proof -
  define languageFixes where
    "languageFixes = orElse (getProp (getProp fixesTable (type bug)) lang)
                            (getProp fixesTable (type bug))"
  define fallback where
    "fallback = Obj [(''before'', Str ''Original code''), (''after'', Str (fix' bug)),
                     (''explanation'', Str (fix' bug))]"
  define found where "found = orElse (getProp languageFixes (message bug)) fallback"
  have plain: "plainMessage (message bug)" and suggested: "fix' bug \<noteq> []"
    using assms by (simp_all add: wellFormedRaw_def)
  have "messageSource languageFixes"
    unfolding languageFixes_def by (rule languageFixes_source)
  then have look: "getProp languageFixes (message bug) = Undefined
      \<or> isFixEntry (getProp languageFixes (message bug))"
    using plain by (rule messageSource_lookup)
  have "isFixEntry fallback"
    using suggested by (simp add: fallback_def isFixEntry_def)
  then have "isFixEntry found"
    using look by (auto simp: found_def orElse_def)
  moreover have "fix' (generateFix bug lang) =
      \<lparr>before = getProp found ''before'', after = getProp found ''after'',
       explanation = getProp found ''explanation''\<rparr>"
    by (simp add: generateFix_def Let_def found_def fallback_def languageFixes_def)
  ultimately show ?thesis
    by (simp add: hasNonEmptyFix_def isFixEntry_def)
qed

lemmas raw_defs = wellFormedRaw_def plainMessage_def objectPrototypeKeys_def knownLanguages_def

lemma forEachLine_member:
  "f \<in> set (forEachLine g ls) \<Longrightarrow> \<exists>l i. f \<in> set (g l i)"
  by (auto simp: forEachLine_def)

lemma missingSemicolonAt_filled: "hasNonEmptyFix (missingSemicolonAt i lang)"
  unfolding missingSemicolonAt_def
  by (rule generateFix_nonEmpty) (simp add: raw_defs)

lemma unclosedCall_filled:
  "f \<in> set (unclosedCallFindings code lang) \<Longrightarrow> hasNonEmptyFix f"
  unfolding unclosedCallFindings_def
  by (auto intro!: generateFix_nonEmpty simp: raw_defs)

lemma checkSyntaxJavascript_filled:
  assumes "f \<in> set (checkSyntaxJavascript code lang)"
  shows "hasNonEmptyFix f"
proof -
  from assms consider
      "f \<in> set (forEachLine (\<lambda>line index.
          if jsMissingSemicolon line then [missingSemicolonAt index lang] else [])
          (splitLines code))"
    | "f = generateFix \<lparr>type = ''syntax'', message = ''Unmatched curly braces'',
                              line = LineText ''Multiple lines'',
                              fix' = ''Check and match all opening and closing braces''\<rparr> lang"
    | "f \<in> set (unclosedCallFindings code lang)"
    | q where "f = generateFix \<lparr>type = ''syntax'', message = ''Unclosed string literal'',
                           line = lineOf (\<lambda>line. strIncludes line q) code,
                           fix' = ''Add closing quote to complete the string''\<rparr> lang"
    by (auto simp: checkSyntaxJavascript_def Let_def split: if_splits)
  then show ?thesis
  proof cases
    case 1
    then obtain l i where
      "f \<in> set (if jsMissingSemicolon l then [missingSemicolonAt i lang] else [])"
      by (blast dest: forEachLine_member)
    then show ?thesis by (auto simp: missingSemicolonAt_filled split: if_splits)
  next
    case 2
    then show ?thesis by (auto intro!: generateFix_nonEmpty simp: raw_defs)
  next
    case 3
    then show ?thesis by (rule unclosedCall_filled)
  next
    case 4
    then show ?thesis by (auto intro!: generateFix_nonEmpty simp: raw_defs)
  qed
qed

lemma indentationFindings_filled:
  "indentationFindings lang index ls = Inr fs \<Longrightarrow> f \<in> set fs \<Longrightarrow> hasNonEmptyFix f"
proof (induction ls arbitrary: index fs)
  case Nil
  then show ?case by simp
next
  case (Cons l ls)
  obtain rest where rest: "indentationFindings lang (Suc index) ls = Inr rest"
    using indentationFindings_returns by blast
  with Cons.prems have "f \<in> set rest \<or>
      f = generateFix \<lparr>type = ''syntax'', message = ''Incorrect indentation'',
                        line = LineNo (int index + 1),
                        fix' = ''Use 4 spaces for indentation''\<rparr> lang"
    by (auto simp: matchLeadingSpace_def split: if_splits)
  then show ?case
  proof
    assume "f \<in> set rest"
    with Cons.IH rest show ?thesis by blast
  next
    assume "f = generateFix \<lparr>type = ''syntax'', message = ''Incorrect indentation'',
                        line = LineNo (int index + 1),
                        fix' = ''Use 4 spaces for indentation''\<rparr> lang"
    then show ?thesis by (auto intro!: generateFix_nonEmpty simp: raw_defs)
  qed
qed

lemma missingColon_filled:
  "f \<in> set (missingColonFindings lang ls) \<Longrightarrow> hasNonEmptyFix f"
  unfolding missingColonFindings_def forEachLine_def
  by (auto intro!: generateFix_nonEmpty simp: raw_defs Let_def split: if_splits)

lemma checkSyntaxPython_filled:
  "checkSyntaxPython code lang = Inr fs \<Longrightarrow> f \<in> set fs \<Longrightarrow> hasNonEmptyFix f"
  unfolding checkSyntaxPython_def
  by (auto split: sum.splits
      dest: indentationFindings_filled missingColon_filled unclosedCall_filled)

lemma checkSyntaxJava_filled:
  "f \<in> set (checkSyntaxJava code lang) \<Longrightarrow> hasNonEmptyFix f"
  unfolding checkSyntaxJava_def forEachLine_def
  by (auto intro!: generateFix_nonEmpty simp: raw_defs missingSemicolonAt_filled
      split: if_splits)

lemma checkSyntaxCpp_filled:
  "f \<in> set (checkSyntaxCpp code lang) \<Longrightarrow> hasNonEmptyFix f"
  unfolding checkSyntaxCpp_def forEachLine_def
  by (auto intro!: generateFix_nonEmpty simp: raw_defs missingSemicolonAt_filled
      split: if_splits)

lemma checkSyntaxErrors_filled:
  "checkSyntaxErrors code lang = Inr fs \<Longrightarrow> f \<in> set fs \<Longrightarrow> hasNonEmptyFix f"
  unfolding checkSyntaxErrors_def
  by (auto split: if_splits
      dest: checkSyntaxJavascript_filled checkSyntaxPython_filled checkSyntaxJava_filled
        checkSyntaxCpp_filled)

lemma checkRuntimeErrors_filled:
  "f \<in> set (checkRuntimeErrors code lang) \<Longrightarrow> hasNonEmptyFix f"
  unfolding checkRuntimeErrors_def undefinedVariableFindings_def
  by (auto intro!: generateFix_nonEmpty simp: raw_defs Let_def split: if_splits)

lemma checkLogicalErrors_filled:
  "f \<in> set (checkLogicalErrors code lang) \<Longrightarrow> hasNonEmptyFix f"
  unfolding checkLogicalErrors_def
  by (auto intro!: generateFix_nonEmpty simp: raw_defs split: if_splits)

lemma checkSecurityIssues_filled:
  "f \<in> set (checkSecurityIssues code lang) \<Longrightarrow> hasNonEmptyFix f"
  unfolding checkSecurityIssues_def
  by (auto intro!: generateFix_nonEmpty simp: raw_defs split: if_splits)

lemma analyzePotentialBugs_filled:
  assumes "analyzePotentialBugs limit code lang = Inr fs" and "f \<in> set fs"
  shows "hasNonEmptyFix f"
proof -
  from analyzePotentialBugs_Inr [OF assms(1)] obtain ss where
    ss: "checkSyntaxErrors code lang = Inr ss" and
    fs: "fs = ss @ checkRuntimeErrors code lang @ checkLogicalErrors code lang
              @ checkSecurityIssues code lang"
    by blast
  from assms(2) fs have "f \<in> set ss \<or> f \<in> set (checkRuntimeErrors code lang)
      \<or> f \<in> set (checkLogicalErrors code lang) \<or> f \<in> set (checkSecurityIssues code lang)"
    by auto
  then show ?thesis
    using ss checkSyntaxErrors_filled checkRuntimeErrors_filled checkLogicalErrors_filled
      checkSecurityIssues_filled by blast
qed

section \<open>The type of every finding\<close>

lemma checkSyntaxJavascript_type:
  "f \<in> set (checkSyntaxJavascript code lang) \<Longrightarrow> type f = ''syntax''"
  unfolding checkSyntaxJavascript_def forEachLine_def unclosedCallFindings_def
    missingSemicolonAt_def
  by (auto simp: generateFix_type Let_def split: if_splits)

lemma indentationFindings_type:
  "indentationFindings lang index ls = Inr fs \<Longrightarrow> f \<in> set fs \<Longrightarrow> type f = ''syntax''"
proof (induction ls arbitrary: index fs)
  case Nil
  then show ?case by simp
next
  case (Cons l ls)
  obtain rest where rest: "indentationFindings lang (Suc index) ls = Inr rest"
    using indentationFindings_returns by blast
  with Cons.prems have "f \<in> set rest \<or> type f = ''syntax''"
    by (auto simp: matchLeadingSpace_def generateFix_type split: if_splits)
  with Cons.IH rest show ?case by blast
qed

lemma checkSyntaxPython_type:
  "checkSyntaxPython code lang = Inr fs \<Longrightarrow> f \<in> set fs \<Longrightarrow> type f = ''syntax''"
  unfolding checkSyntaxPython_def missingColonFindings_def forEachLine_def
    unclosedCallFindings_def
  by (auto simp: generateFix_type Let_def split: sum.splits if_splits
      dest: indentationFindings_type)

lemma checkSyntaxJava_type:
  "f \<in> set (checkSyntaxJava code lang) \<Longrightarrow> type f = ''syntax''"
  unfolding checkSyntaxJava_def forEachLine_def missingSemicolonAt_def
  by (auto simp: generateFix_type split: if_splits)

lemma checkSyntaxCpp_type:
  "f \<in> set (checkSyntaxCpp code lang) \<Longrightarrow> type f = ''syntax''"
  unfolding checkSyntaxCpp_def forEachLine_def missingSemicolonAt_def
  by (auto simp: generateFix_type split: if_splits)

lemma checkSyntaxErrors_type:
  "checkSyntaxErrors code lang = Inr fs \<Longrightarrow> f \<in> set fs \<Longrightarrow> type f = ''syntax''"
  unfolding checkSyntaxErrors_def
  by (auto split: if_splits
      dest: checkSyntaxJavascript_type checkSyntaxPython_type checkSyntaxJava_type
        checkSyntaxCpp_type)

lemma checkRuntimeErrors_type:
  "f \<in> set (checkRuntimeErrors code lang) \<Longrightarrow> type f = ''runtime''"
  unfolding checkRuntimeErrors_def undefinedVariableFindings_def
  by (auto simp: generateFix_type Let_def split: if_splits)

lemma checkLogicalErrors_type:
  "f \<in> set (checkLogicalErrors code lang) \<Longrightarrow> type f = ''logical''"
  unfolding checkLogicalErrors_def
  by (auto simp: generateFix_type split: if_splits)

lemma checkSecurityIssues_type:
  "f \<in> set (checkSecurityIssues code lang) \<Longrightarrow> type f = ''security''"
  unfolding checkSecurityIssues_def
  by (auto simp: generateFix_type split: if_splits)

lemma analyzePotentialBugs_type:
  assumes "analyzePotentialBugs limit code lang = Inr fs" and "f \<in> set fs"
  shows "type f \<in> {''syntax'', ''runtime'', ''logical'', ''security''}"
proof -
  from analyzePotentialBugs_Inr [OF assms(1)] obtain ss where
    ss: "checkSyntaxErrors code lang = Inr ss" and
    fs: "fs = ss @ checkRuntimeErrors code lang @ checkLogicalErrors code lang
              @ checkSecurityIssues code lang"
    by blast
  from assms(2) fs have "f \<in> set ss \<or> f \<in> set (checkRuntimeErrors code lang)
      \<or> f \<in> set (checkLogicalErrors code lang) \<or> f \<in> set (checkSecurityIssues code lang)"
    by auto
  then show ?thesis
    using ss checkSyntaxErrors_type checkRuntimeErrors_type checkLogicalErrors_type
      checkSecurityIssues_type by blast
qed

lemma checkLogicalErrors_length: "length (checkLogicalErrors code lang) \<le> 2"
  by (simp add: checkLogicalErrors_def)

lemma checkSecurityIssues_length: "length (checkSecurityIssues code lang) \<le> 2"
  by (simp add: checkSecurityIssues_def)

lemma count_by_type:
  assumes "\<forall>f \<in> set fs. type f \<in> {''syntax'', ''runtime'', ''logical'', ''security''}"
  shows "length (filter (\<lambda>bug. type bug = ''syntax'') fs)
       + length (filter (\<lambda>bug. type bug = ''runtime'') fs)
       + length (filter (\<lambda>bug. type bug = ''logical'') fs)
       + length (filter (\<lambda>bug. type bug = ''security'') fs) = length fs"
  using assms by (induction fs) auto

section \<open>Claims about the report\<close>

text \<open>
  Claim C1. Every finding of a report carries a fix whose \<open>before\<close>, \<open>after\<close> and
  \<open>explanation\<close> are non-empty texts, for every code and every language, whether the
  fix comes from the catalog or from the generic fallback.
\<close>

theorem C1_every_fix_filled:
  assumes "analyzeCode limit code lang = Inr r" and "f \<in> set (bugs (debugging r))"
  shows "nonEmptyText (before (fix' f)) \<and> nonEmptyText (after (fix' f)) \<and>
         nonEmptyText (explanation (fix' f))"
proof -
  have "analyzePotentialBugs limit code lang = Inr (bugs (debugging r))"
    using assms(1) by (rule analyzeCode_bugs)
  then have "hasNonEmptyFix f"
    using assms(2) by (rule analyzePotentialBugs_filled)
  then show ?thesis by (simp add: hasNonEmptyFix_def)
qed

text \<open>
  The message \<^verbatim>\<open>'Unreachable code after return statement'\<close> has no catalog entry: the
  finding of this input carries the generic fallback, and its three fields are non-empty.
  The bound on arguments of the witness is of the size that of a real runtime has.
\<close>

theorem C1_every_fix_filled_witness:
  "\<exists>r f. analyzeCode 125000 ''return 1; return 2'' ''ruby'' = Inr r \<and>
         f \<in> set (bugs (debugging r)) \<and>
         message f = ''Unreachable code after return statement'' \<and>
         before (fix' f) = Str ''Original code'' \<and>
         nonEmptyText (before (fix' f)) \<and> nonEmptyText (after (fix' f)) \<and>
         nonEmptyText (explanation (fix' f))"
proof -
  define f :: finding where
    "f = \<lparr>type = ''logical'', message = ''Unreachable code after return statement'',
           line = LineNo 1,
           fix' = \<lparr>before = Str ''Original code'',
                    after = Str ''Remove code after return statement or restructure logic'',
                    explanation =
                      Str ''Remove code after return statement or restructure logic''\<rparr>\<rparr>"
  have s: "checkSyntaxErrors ''return 1; return 2'' ''ruby'' = Inr []"
    by code_simp
  have rt: "checkRuntimeErrors ''return 1; return 2'' ''ruby'' = []"
    by code_simp
  have lg: "checkLogicalErrors ''return 1; return 2'' ''ruby'' = [f]"
    unfolding f_def by code_simp
  have sec: "checkSecurityIssues ''return 1; return 2'' ''ruby'' = []"
    by code_simp
  have "analyzePotentialBugs 125000 ''return 1; return 2'' ''ruby'' =
      Inr ([] @ checkRuntimeErrors ''return 1; return 2'' ''ruby''
           @ checkLogicalErrors ''return 1; return 2'' ''ruby''
           @ checkSecurityIssues ''return 1; return 2'' ''ruby'')"
    by (rule analyzePotentialBugs_within [OF s]) (simp_all add: rt lg sec)
  then have found: "analyzePotentialBugs 125000 ''return 1; return 2'' ''ruby'' = Inr [f]"
    by (simp add: rt lg sec)
  from analyzeCode_Inr [OF found] obtain r where
    r: "analyzeCode 125000 ''return 1; return 2'' ''ruby'' = Inr r"
    and bs: "bugs (debugging r) = [f]"
    by blast
  have mem: "f \<in> set (bugs (debugging r))"
    using bs by simp
  from C1_every_fix_filled [OF r mem] r mem show ?thesis
    by (auto simp: f_def)
qed

text \<open>
  Claim C4. For a language other than javascript, python, java and cpp no rule of a
  language runs: the syntax and runtime checkers find nothing, the findings of a report
  are those of the logical and security checkers, and none has type \<^verbatim>\<open>'syntax'\<close> or
  \<^verbatim>\<open>'runtime'\<close>. These two checkers find at most two findings each, so the report exists
  as soon as one call can spread two elements.
\<close>

theorem C4_unknown_language_no_syntax_no_runtime:
  assumes "lang \<notin> set knownLanguages"
  shows "checkSyntaxErrors code lang = Inr [] \<and> checkRuntimeErrors code lang = [] \<and>
         (\<forall>r. analyzeCode limit code lang = Inr r \<longrightarrow>
              bugs (debugging r) = checkLogicalErrors code lang @ checkSecurityIssues code lang \<and>
              (\<forall>f \<in> set (bugs (debugging r)). type f \<noteq> ''syntax'' \<and> type f \<noteq> ''runtime'') \<and>
              syntax' (bugTypes (debugging r)) = 0 \<and> runtime (bugTypes (debugging r)) = 0) \<and>
         (2 \<le> limit \<longrightarrow> (\<exists>r. analyzeCode limit code lang = Inr r))"
proof -
  have s: "checkSyntaxErrors code lang = Inr []"
    using assms by (simp add: checkSyntaxErrors_def knownLanguages_def)
  have rt: "checkRuntimeErrors code lang = []"
    using assms by (simp add: checkRuntimeErrors_def knownLanguages_def)
  have types: "\<forall>f \<in> set (checkLogicalErrors code lang @ checkSecurityIssues code lang).
      type f \<noteq> ''syntax'' \<and> type f \<noteq> ''runtime''"
    by (auto dest: checkLogicalErrors_type checkSecurityIssues_type)
  then have none:
    "filter (\<lambda>bug. type bug = ''syntax'')
       (checkLogicalErrors code lang @ checkSecurityIssues code lang) = []"
    "filter (\<lambda>bug. type bug = ''runtime'')
       (checkLogicalErrors code lang @ checkSecurityIssues code lang) = []"
    by (auto simp: filter_empty_conv)
  have report: "bugs (debugging r) = checkLogicalErrors code lang @ checkSecurityIssues code lang \<and>
      (\<forall>f \<in> set (bugs (debugging r)). type f \<noteq> ''syntax'' \<and> type f \<noteq> ''runtime'') \<and>
      syntax' (bugTypes (debugging r)) = 0 \<and> runtime (bugTypes (debugging r)) = 0"
    if r: "analyzeCode limit code lang = Inr r" for r
  proof -
    have fs: "analyzePotentialBugs limit code lang = Inr (bugs (debugging r))"
      using r by (rule analyzeCode_bugs)
    from analyzePotentialBugs_Inr [OF fs] have bs:
      "bugs (debugging r) = checkLogicalErrors code lang @ checkSecurityIssues code lang"
      by (simp add: s rt)
    from analyzeCode_Inr [OF fs] r have
      "syntax' (bugTypes (debugging r)) =
         length (filter (\<lambda>bug. type bug = ''syntax'') (bugs (debugging r)))"
      "runtime (bugTypes (debugging r)) =
         length (filter (\<lambda>bug. type bug = ''runtime'') (bugs (debugging r)))"
      by auto
    then show ?thesis using bs types none by simp
  qed
  have exists: "\<exists>r. analyzeCode limit code lang = Inr r" if "2 \<le> limit"
  proof -
    have "length (checkLogicalErrors code lang) \<le> limit"
      "length (checkSecurityIssues code lang) \<le> limit"
      using that checkLogicalErrors_length [of code lang]
        checkSecurityIssues_length [of code lang] by simp_all
    then have "analyzePotentialBugs limit code lang =
        Inr ([] @ checkRuntimeErrors code lang @ checkLogicalErrors code lang
             @ checkSecurityIssues code lang)"
      by (intro analyzePotentialBugs_within [OF s]) (simp_all add: rt)
    from analyzeCode_Inr [OF this] show ?thesis by blast
  qed
  show ?thesis using s rt report exists by blast
qed

theorem C4_unknown_language_no_syntax_no_runtime_witness:
  "''ruby'' \<notin> set knownLanguages \<and>
   (\<exists>r. analyzeCode 125000 ''x = 1 / 0; while(true) SELECT'' ''ruby'' = Inr r \<and>
        map type (bugs (debugging r)) = [''logical'', ''security''] \<and>
        syntax' (bugTypes (debugging r)) = 0 \<and> runtime (bugTypes (debugging r)) = 0)"
proof -
  have unknown: "''ruby'' \<notin> set knownLanguages"
    by (simp add: knownLanguages_def)
  have types: "map type (checkLogicalErrors ''x = 1 / 0; while(true) SELECT'' ''ruby''
      @ checkSecurityIssues ''x = 1 / 0; while(true) SELECT'' ''ruby'') = [''logical'', ''security'']"
    by code_simp
  note c4 = C4_unknown_language_no_syntax_no_runtime
    [OF unknown, of "''x = 1 / 0; while(true) SELECT''" 125000]
  from c4 obtain r where r: "analyzeCode 125000 ''x = 1 / 0; while(true) SELECT'' ''ruby'' = Inr r"
    by auto
  with c4 have "bugs (debugging r) = checkLogicalErrors ''x = 1 / 0; while(true) SELECT'' ''ruby''
      @ checkSecurityIssues ''x = 1 / 0; while(true) SELECT'' ''ruby''"
    and "syntax' (bugTypes (debugging r)) = 0" and "runtime (bugTypes (debugging r)) = 0"
    by blast+
  with r types unknown show ?thesis by auto
qed

text \<open>
  Claim C10. In every report \<open>bugCount\<close> is the number of findings, every finding has
  one of the four types, and the four counters of \<open>bugTypes\<close> add up to \<open>bugCount\<close>.
\<close>

theorem C10_counters_add_up:
  assumes "analyzeCode limit code lang = Inr r"
  shows "bugCount (debugging r) = length (bugs (debugging r)) \<and>
         (\<forall>f \<in> set (bugs (debugging r)).
            type f \<in> {''syntax'', ''runtime'', ''logical'', ''security''}) \<and>
         syntax' (bugTypes (debugging r)) + runtime (bugTypes (debugging r)) +
         logical (bugTypes (debugging r)) + security (bugTypes (debugging r)) =
           bugCount (debugging r)"
proof -
  have fs: "analyzePotentialBugs limit code lang = Inr (bugs (debugging r))"
    using assms by (rule analyzeCode_bugs)
  then have types: "\<forall>f \<in> set (bugs (debugging r)).
      type f \<in> {''syntax'', ''runtime'', ''logical'', ''security''}"
    using analyzePotentialBugs_type by blast
  from analyzeCode_Inr [OF fs] assms have
    "bugCount (debugging r) = length (bugs (debugging r))"
    "syntax' (bugTypes (debugging r)) =
       length (filter (\<lambda>bug. type bug = ''syntax'') (bugs (debugging r)))"
    "runtime (bugTypes (debugging r)) =
       length (filter (\<lambda>bug. type bug = ''runtime'') (bugs (debugging r)))"
    "logical (bugTypes (debugging r)) =
       length (filter (\<lambda>bug. type bug = ''logical'') (bugs (debugging r)))"
    "security (bugTypes (debugging r)) =
       length (filter (\<lambda>bug. type bug = ''security'') (bugs (debugging r)))"
    by auto
  then show ?thesis using types count_by_type [OF types] by simp
qed

theorem C10_counters_add_up_witness:
  "\<exists>r. analyzeCode 125000 ''foo(1'' ''javascript'' = Inr r \<and>
       bugCount (debugging r) = 3 \<and>
       syntax' (bugTypes (debugging r)) + runtime (bugTypes (debugging r)) +
       logical (bugTypes (debugging r)) + security (bugTypes (debugging r)) = 3"
proof -
  obtain ss where ss: "checkSyntaxErrors ''foo(1'' ''javascript'' = Inr ss"
    using checkSyntaxErrors_returns by blast
  have "map_sum id length (checkSyntaxErrors ''foo(1'' ''javascript'') = Inr 2"
    by code_simp
  then have two: "length ss = 2"
    using ss by simp
  have rt: "length (checkRuntimeErrors ''foo(1'' ''javascript'') = 1"
    by code_simp
  have lg: "checkLogicalErrors ''foo(1'' ''javascript'' = []"
    by code_simp
  have sec: "checkSecurityIssues ''foo(1'' ''javascript'' = []"
    by code_simp
  have "analyzePotentialBugs 125000 ''foo(1'' ''javascript'' =
      Inr (ss @ checkRuntimeErrors ''foo(1'' ''javascript''
           @ checkLogicalErrors ''foo(1'' ''javascript''
           @ checkSecurityIssues ''foo(1'' ''javascript'')"
    by (rule analyzePotentialBugs_within [OF ss]) (simp_all add: two rt lg sec)
  from analyzeCode_Inr [OF this] obtain r where
    r: "analyzeCode 125000 ''foo(1'' ''javascript'' = Inr r" and
    "bugs (debugging r) = ss @ checkRuntimeErrors ''foo(1'' ''javascript''
           @ checkLogicalErrors ''foo(1'' ''javascript''
           @ checkSecurityIssues ''foo(1'' ''javascript''"
    by blast
  then have "length (bugs (debugging r)) = 3"
    by (simp add: two rt lg sec)
  with C10_counters_add_up [OF r] r show ?thesis by auto
qed

section \<open>The syntax findings for javascript\<close>

lemma enumerate_filter:
  "concat (map (\<lambda>(index, l). if P l then [g index] else []) (enumerate n ls)) =
   map g (filter (\<lambda>i. P (ls ! (i - n))) [n..<n + length ls])"
proof (induction ls arbitrary: n)
  case Nil
  show ?case by simp
next
  case (Cons x xs)
  have shift: "filter (\<lambda>i. P ((x # xs) ! (i - n))) [Suc n..<Suc n + length xs] =
      filter (\<lambda>i. P (xs ! (i - Suc n))) [Suc n..<Suc n + length xs]"
  proof (rule filter_cong [OF refl])
    fix i assume "i \<in> set [Suc n..<Suc n + length xs]"
    then have "i - n = Suc (i - Suc n)" by auto
    then show "P ((x # xs) ! (i - n)) = P (xs ! (i - Suc n))" by simp
  qed
  have "n < n + length (x # xs)" by simp
  then have "[n..<n + length (x # xs)] = n # [Suc n..<n + length (x # xs)]"
    by (rule upt_conv_Cons)
  moreover have "n + length (x # xs) = Suc n + length xs" by simp
  ultimately have "[n..<n + length (x # xs)] = n # [Suc n..<Suc n + length xs]"
    by (simp only:)
  then have "map g (filter (\<lambda>i. P ((x # xs) ! (i - n))) [n..<n + length (x # xs)]) =
      (if P x then [g n] else []) @
      map g (filter (\<lambda>i. P (xs ! (i - Suc n))) [Suc n..<Suc n + length xs])"
    using shift by simp
  moreover have "concat (map (\<lambda>(index, l). if P l then [g index] else [])
        (enumerate n (x # xs))) =
      (if P x then [g n] else []) @
      concat (map (\<lambda>(index, l). if P l then [g index] else []) (enumerate (Suc n) xs))"
    by simp
  ultimately show ?case using Cons.IH [of "Suc n"] by simp
qed

lemma forEachLine_filter:
  "forEachLine (\<lambda>l index. if P l then [g index] else []) ls =
   map g (filter (\<lambda>i. P (ls ! i)) [0..<length ls])"
  using enumerate_filter [of P g 0 ls] by (simp add: forEachLine_def)

lemma jsMissingSemicolon_spec:
  "jsMissingSemicolon l = missesTerminator [''if'', ''for'', ''while'', ''function''] l"
  by (auto simp: jsMissingSemicolon_def missesTerminator_def Let_def)

lemma missingSemicolonAt_is: "isMissingSemicolon (missingSemicolonAt i lang)"
  by (simp add: isMissingSemicolon_def missingSemicolonAt_def generateFix_type generateFix_message)

lemma missingSemicolonAt_line: "line (missingSemicolonAt i lang) = LineNo (int i + 1)"
  by (simp add: missingSemicolonAt_def generateFix_line)

lemma missingSemicolonAt_not_braces: "\<not> isUnmatchedBraces (missingSemicolonAt i lang)"
  by (simp add: isUnmatchedBraces_def missingSemicolonAt_def generateFix_message)

lemma unclosedCall_other:
  "f \<in> set (unclosedCallFindings code lang) \<Longrightarrow>
   \<not> isMissingSemicolon f \<and> \<not> isUnmatchedBraces f"
  by (auto simp: unclosedCallFindings_def isMissingSemicolon_def isUnmatchedBraces_def
      generateFix_message)

lemma checkSyntaxJavascript_parts:
  "\<exists>others. checkSyntaxJavascript code lang =
      semicolonPart code lang
      @ (if countChar (CHR ''{'') code \<noteq> countChar (CHR ''}'') code
         then [generateFix \<lparr>type = ''syntax'', message = ''Unmatched curly braces'',
                              line = LineText ''Multiple lines'',
                              fix' = ''Check and match all opening and closing braces''\<rparr> lang]
         else [])
      @ others \<and>
      (\<forall>f \<in> set others. \<not> isMissingSemicolon f \<and> \<not> isUnmatchedBraces f)"
  unfolding checkSyntaxJavascript_def semicolonPart_def forEachLine_filter Let_def
  by (rule exI [of _ "unclosedCallFindings code lang @ map (\<lambda>quote.
              generateFix \<lparr>type = ''syntax'', message = ''Unclosed string literal'',
                           line = lineOf (\<lambda>line. strIncludes line quote) code,
                           fix' = ''Add closing quote to complete the string''\<rparr> lang)
         (regexMatches reUnclosedQuote code)"])
    (auto simp: isMissingSemicolon_def isUnmatchedBraces_def generateFix_message
      dest: unclosedCall_other)

section \<open>Claims about the rules for javascript\<close>

lemma filter_none: "(\<forall>x \<in> set xs. \<not> P x) \<Longrightarrow> filter P xs = []"
  by (simp add: filter_empty_conv)

lemma filter_all: "(\<forall>x \<in> set xs. P x) \<Longrightarrow> filter P xs = xs"
  by (induction xs) auto

lemma semicolonPart_semicolons:
  "filter isMissingSemicolon (semicolonPart code lang) = semicolonPart code lang"
  by (rule filter_all) (auto simp: semicolonPart_def missingSemicolonAt_is)

lemma semicolonPart_braces: "filter isUnmatchedBraces (semicolonPart code lang) = []"
  by (rule filter_none) (auto simp: semicolonPart_def missingSemicolonAt_not_braces)

lemma bracesFinding_is:
  "isUnmatchedBraces (bracesFinding lang)"
  "\<not> isMissingSemicolon (bracesFinding lang)"
  "line (bracesFinding lang) = LineText ''Multiple lines''"
  by (simp_all add: bracesFinding_def isUnmatchedBraces_def isMissingSemicolon_def
      generateFix_type generateFix_message generateFix_line)

lemma javascript_semicolons:
  "filter isMissingSemicolon (checkSyntaxJavascript code lang) = semicolonPart code lang"
proof -
  from checkSyntaxJavascript_parts [of code lang] obtain others where
    parts: "checkSyntaxJavascript code lang = semicolonPart code lang
      @ (if countChar (CHR ''{'') code \<noteq> countChar (CHR ''}'') code then [bracesFinding lang] else [])
      @ others"
    and others: "\<forall>f \<in> set others. \<not> isMissingSemicolon f \<and> \<not> isUnmatchedBraces f"
    unfolding bracesFinding_def by blast
  have "filter isMissingSemicolon others = []"
    using others by simp
  then show ?thesis
    by (simp add: parts semicolonPart_semicolons bracesFinding_is)
qed

lemma javascript_braces:
  "filter isUnmatchedBraces (checkSyntaxJavascript code lang) =
     (if countChar (CHR ''{'') code \<noteq> countChar (CHR ''}'') code then [bracesFinding lang] else [])"
proof -
  from checkSyntaxJavascript_parts [of code lang] obtain others where
    parts: "checkSyntaxJavascript code lang = semicolonPart code lang
      @ (if countChar (CHR ''{'') code \<noteq> countChar (CHR ''}'') code then [bracesFinding lang] else [])
      @ others"
    and others: "\<forall>f \<in> set others. \<not> isMissingSemicolon f \<and> \<not> isUnmatchedBraces f"
    unfolding bracesFinding_def by blast
  have "filter isUnmatchedBraces others = []"
    using others by simp
  then show ?thesis
    by (simp add: parts semicolonPart_braces bracesFinding_is)
qed

lemma other_checkers_no_braces:
  "filter isUnmatchedBraces (checkRuntimeErrors code lang) = []"
  "filter isUnmatchedBraces (checkLogicalErrors code lang) = []"
  "filter isUnmatchedBraces (checkSecurityIssues code lang) = []"
  by (auto intro!: filter_none simp: isUnmatchedBraces_def
      dest: checkRuntimeErrors_type checkLogicalErrors_type checkSecurityIssues_type)

text \<open>
  Claim C2, as amended. The brace rule belongs to javascript: for the language javascript
  and every code whose count of opening braces differs from its count of closing
  braces, the syntax checker yields exactly one finding of type \<^verbatim>\<open>'syntax'\<close> with the
  message \<^verbatim>\<open>'Unmatched curly braces'\<close>, whatever the size of the difference, and the
  line of that finding is the text \<^verbatim>\<open>'Multiple lines'\<close>. The other checkers yield no
  such finding, so the list of the bug finder holds exactly that one whenever the bug
  finder returns, which it does when no checker yields more findings than one call can
  spread.
\<close>

theorem C2_javascript_unmatched_braces_once:
  assumes "countChar (CHR ''{'') code \<noteq> countChar (CHR ''}'') code"
  shows "(\<exists>ss f. checkSyntaxErrors code ''javascript'' = Inr ss \<and>
            filter isUnmatchedBraces ss = [f] \<and> line f = LineText ''Multiple lines'') \<and>
         (\<forall>fs. analyzePotentialBugs limit code ''javascript'' = Inr fs \<longrightarrow>
            (\<exists>f. filter isUnmatchedBraces fs = [f] \<and> line f = LineText ''Multiple lines'')) \<and>
         (length (checkSyntaxJavascript code ''javascript'') \<le> limit \<and>
          length (checkRuntimeErrors code ''javascript'') \<le> limit \<and>
          length (checkLogicalErrors code ''javascript'') \<le> limit \<and>
          length (checkSecurityIssues code ''javascript'') \<le> limit \<longrightarrow>
            (\<exists>fs. analyzePotentialBugs limit code ''javascript'' = Inr fs))"
proof -
  have ss: "checkSyntaxErrors code ''javascript'' = Inr (checkSyntaxJavascript code ''javascript'')"
    by (simp add: checkSyntaxErrors_def)
  have one: "filter isUnmatchedBraces (checkSyntaxJavascript code ''javascript'') =
      [bracesFinding ''javascript'']"
    using assms by (simp add: javascript_braces)
  have all: "filter isUnmatchedBraces
      (checkSyntaxJavascript code ''javascript'' @ checkRuntimeErrors code ''javascript''
       @ checkLogicalErrors code ''javascript'' @ checkSecurityIssues code ''javascript'') =
      [bracesFinding ''javascript'']"
    using one by (simp add: other_checkers_no_braces)
  have first: "\<exists>ss f. checkSyntaxErrors code ''javascript'' = Inr ss \<and>
      filter isUnmatchedBraces ss = [f] \<and> line f = LineText ''Multiple lines''"
    using ss one bracesFinding_is(3) by blast
  have second: "\<exists>f. filter isUnmatchedBraces fs = [f] \<and> line f = LineText ''Multiple lines''"
    if "analyzePotentialBugs limit code ''javascript'' = Inr fs" for fs
  proof -
    from analyzePotentialBugs_Inr [OF that] ss have
      "fs = checkSyntaxJavascript code ''javascript'' @ checkRuntimeErrors code ''javascript''
       @ checkLogicalErrors code ''javascript'' @ checkSecurityIssues code ''javascript''"
      by simp
    then show ?thesis using all bracesFinding_is(3) by blast
  qed
  have third: "\<exists>fs. analyzePotentialBugs limit code ''javascript'' = Inr fs"
    if "length (checkSyntaxJavascript code ''javascript'') \<le> limit \<and>
        length (checkRuntimeErrors code ''javascript'') \<le> limit \<and>
        length (checkLogicalErrors code ''javascript'') \<le> limit \<and>
        length (checkSecurityIssues code ''javascript'') \<le> limit"
    using analyzePotentialBugs_within [OF ss, of limit] that by blast
  show ?thesis using first second third by blast
qed

theorem C2_javascript_unmatched_braces_once_witness:
  "countChar (CHR ''{'') ''if (a) {{{'' \<noteq> countChar (CHR ''}'') ''if (a) {{{'' \<and>
   (\<exists>fs f. analyzePotentialBugs 125000 ''if (a) {{{'' ''javascript'' = Inr fs \<and>
          filter isUnmatchedBraces fs = [f] \<and> line f = LineText ''Multiple lines'')"
proof -
  have differ: "countChar (CHR ''{'') ''if (a) {{{'' \<noteq> countChar (CHR ''}'') ''if (a) {{{''"
    by (simp add: countChar_def)
  have lengths:
    "length (checkSyntaxJavascript ''if (a) {{{'' ''javascript'') = 1"
    "length (checkRuntimeErrors ''if (a) {{{'' ''javascript'') = 2"
    "length (checkLogicalErrors ''if (a) {{{'' ''javascript'') = 0"
    "length (checkSecurityIssues ''if (a) {{{'' ''javascript'') = 0"
    by code_simp+
  note c2 = C2_javascript_unmatched_braces_once [OF differ, of 125000]
  from c2 lengths obtain fs where
    fs: "analyzePotentialBugs 125000 ''if (a) {{{'' ''javascript'' = Inr fs"
    by auto
  with c2 obtain f where
    "filter isUnmatchedBraces fs = [f]" "line f = LineText ''Multiple lines''"
    by blast
  with fs differ show ?thesis by blast
qed

text \<open>
  The claim as stated, for every language, fails: for python no checker yields a finding
  on a text with an unmatched brace, and the bug finder returns the empty list.
\<close>

theorem C2_counterexample:
  "countChar (CHR ''{'') ''d = {'' \<noteq> countChar (CHR ''}'') ''d = {'' \<and>
   analyzePotentialBugs 125000 ''d = {'' ''python'' = Inr []"
proof -
  have differ: "countChar (CHR ''{'') ''d = {'' \<noteq> countChar (CHR ''}'') ''d = {''"
    by (simp add: countChar_def)
  have s: "checkSyntaxErrors ''d = {'' ''python'' = Inr []"
    by code_simp
  have others: "checkRuntimeErrors ''d = {'' ''python'' = []"
    "checkLogicalErrors ''d = {'' ''python'' = []"
    "checkSecurityIssues ''d = {'' ''python'' = []"
    by code_simp+
  have "analyzePotentialBugs 125000 ''d = {'' ''python'' =
      Inr ([] @ checkRuntimeErrors ''d = {'' ''python'' @ checkLogicalErrors ''d = {'' ''python''
           @ checkSecurityIssues ''d = {'' ''python'')"
    by (rule analyzePotentialBugs_within [OF s]) (simp_all add: others)
  then show ?thesis using differ by (simp add: others)
qed

text \<open>
  Claim C6, as amended. For javascript the findings with the message
  \<^verbatim>\<open>'Missing semicolon'\<close> are, in order, one for each line that misses its terminator,
  at the 1-based index of that line: the line is not empty after trimming, does not end
  with \<^verbatim>\<open>;\<close>, \<^verbatim>\<open>{\<close> or \<^verbatim>\<open>}\<close>, contains none of \<^verbatim>\<open>if\<close>, \<^verbatim>\<open>for\<close>, \<^verbatim>\<open>while\<close>,
  \<^verbatim>\<open>function\<close>, and starts with none of \<^verbatim>\<open>//\<close>, \<^verbatim>\<open>/*\<close>, \<^verbatim>\<open>*\<close>, \<^verbatim>\<open>const\<close>,
  \<^verbatim>\<open>let\<close>, \<^verbatim>\<open>var\<close>. The keyword \<^verbatim>\<open>class\<close> is not among the keywords of javascript.
\<close>

theorem C6_javascript_missing_semicolon:
  "\<exists>fs. checkSyntaxErrors code ''javascript'' = Inr fs \<and>
     map line (filter isMissingSemicolon fs) =
       map (\<lambda>i. LineNo (int i + 1))
         (filter (\<lambda>i. missesTerminator [''if'', ''for'', ''while'', ''function'']
                    (splitLines code ! i))
            [0..<length (splitLines code)])"
proof -
  have "checkSyntaxErrors code ''javascript'' = Inr (checkSyntaxJavascript code ''javascript'')"
    by (simp add: checkSyntaxErrors_def)
  moreover have "map line (filter isMissingSemicolon (checkSyntaxJavascript code ''javascript'')) =
      map (\<lambda>i. LineNo (int i + 1))
         (filter (\<lambda>i. missesTerminator [''if'', ''for'', ''while'', ''function'']
                    (splitLines code ! i))
            [0..<length (splitLines code)])"
    by (simp add: javascript_semicolons semicolonPart_def missingSemicolonAt_line
        jsMissingSemicolon_spec comp_def)
  ultimately show ?thesis by blast
qed

theorem C6_javascript_missing_semicolon_witness:
  "\<exists>fs. checkSyntaxErrors ''let a = 1\<newline>a = 2\<newline>if (a)\<newline>b()'' ''javascript'' = Inr fs \<and>
     map line (filter isMissingSemicolon fs) = [LineNo 2, LineNo 4]"
proof -
  have "map (\<lambda>i. LineNo (int i + 1))
         (filter (\<lambda>i. missesTerminator [''if'', ''for'', ''while'', ''function'']
                    (splitLines ''let a = 1\<newline>a = 2\<newline>if (a)\<newline>b()'' ! i))
            [0..<length (splitLines ''let a = 1\<newline>a = 2\<newline>if (a)\<newline>b()'')]) = [LineNo 2, LineNo 4]"
    by code_simp
  with C6_javascript_missing_semicolon [of "''let a = 1\<newline>a = 2\<newline>if (a)\<newline>b()''"]
  show ?thesis by simp
qed

text \<open>
  The claim as stated counts \<^verbatim>\<open>class\<close> among the keywords: the line \<^verbatim>\<open>class A\<close>
  contains it, so the claim says the line is not flagged, and the rule flags it.
\<close>

theorem C6_counterexample:
  "map_sum id (\<lambda>fs. map line (filter isMissingSemicolon fs))
     (checkSyntaxErrors ''class A'' ''javascript'') = Inr [LineNo 1] \<and>
   \<not> missesTerminator [''if'', ''for'', ''while'', ''function'', ''class''] ''class A''"
  by code_simp

section \<open>The complexity metric\<close>

lemma startsWith_drop_includes:
  "startsWith (drop i s) p \<Longrightarrow> strIncludes s p"
proof (induction s arbitrary: i)
  case Nil
  then show ?case by (simp add: startsWith_def)
next
  case (Cons c cs)
  show ?case
  proof (cases i)
    case 0
    with Cons.prems show ?thesis by simp
  next
    case (Suc j)
    with Cons.prems have "startsWith (drop j cs) p" by simp
    then have "strIncludes cs p" by (rule Cons.IH)
    then show ?thesis by simp
  qed
qed

lemma matchAll_none:
  "(\<And>i p. re p (drop i s) = None) \<Longrightarrow> matchAll re prev k s = []"
proof (induction s arbitrary: prev k)
  case Nil
  show ?case by simp
next
  case (Cons c cs)
  have tail: "\<And>i p. re p (drop i cs) = None"
    using Cons.prems [of _ "Suc _"] by simp
  have head: "re prev (c # cs) = None"
    using Cons.prems [of prev 0] by simp
  show ?case
  proof (cases k)
    case 0
    then show ?thesis using head Cons.IH [OF tail] by simp
  next
    case (Suc j)
    then show ?thesis using Cons.IH [OF tail] by simp
  qed
qed

lemma firstPrefix_none:
  "(\<forall>kw \<in> set kws. \<not> startsWith s kw) \<Longrightarrow> firstPrefix kws s = None"
  by (induction kws) auto

lemma no_keyword_matches:
  assumes "\<forall>kw \<in> set controlKeywords. \<not> strIncludes code kw"
  shows "regexMatches reControlKeyword code = []"
  unfolding regexMatches_def
proof (rule matchAll_none)
  fix i p
  have "\<forall>kw \<in> set controlKeywords. \<not> startsWith (drop i code) kw"
    using assms startsWith_drop_includes by blast
  then show "reControlKeyword p (drop i code) = None"
    by (simp add: reControlKeyword_def firstPrefix_none)
qed

lemma no_paren_matches:
  assumes "CHR ''('' \<notin> set code"
  shows "regexMatches reParenGroup code = []"
  unfolding regexMatches_def
proof (rule matchAll_none)
  fix i p
  show "reParenGroup p (drop i code) = None"
  proof (cases "drop i code")
    case Nil
    then show ?thesis by (simp add: reParenGroup_def)
  next
    case (Cons c rest)
    then have "c \<in> set (drop i code)" by simp
    then have "c \<in> set code" by (rule in_set_dropD)
    with assms have "c \<noteq> CHR ''(''" by auto
    with Cons show ?thesis by (simp add: reParenGroup_def)
  qed
qed

lemma complexity_monotone:
  "complexityCount code1 \<le> complexityCount code2 \<Longrightarrow>
   levelRank (calculateComplexity code1 lang1) \<le> levelRank (calculateComplexity code2 lang2)"
  by (simp add: calculateComplexity_def Let_def)

lemma complexity_plain:
  assumes "\<forall>kw \<in> set controlKeywords. \<not> strIncludes code kw"
    and "CHR ''{'' \<notin> set code" and "CHR ''('' \<notin> set code"
  shows "complexityCount code = 0"
proof -
  have "countChar (CHR ''{'') code = 0"
    using assms(2) by (auto simp: countChar_def filter_empty_conv)
  then show ?thesis
    using no_keyword_matches [OF assms(1)] no_paren_matches [OF assms(3)]
    by (simp add: complexityCount_def)
qed

text \<open>
  Claim C8. The complexity does not decrease, in the order Low, Medium, High, when the sum
  of the counts of control keywords, opening braces and parenthesised groups grows; and
  a text of one line that contains no control keyword, no brace and no parenthesis has
  complexity Low.
\<close>

theorem C8_complexity_monotone_and_low:
  "(complexityCount code1 \<le> complexityCount code2 \<longrightarrow>
      levelRank (calculateComplexity code1 lang1) \<le> levelRank (calculateComplexity code2 lang2)) \<and>
   (CHR 0x0A \<notin> set code \<and>
    (\<forall>kw \<in> set controlKeywords. \<not> strIncludes code kw) \<and>
    CHR ''{'' \<notin> set code \<and> CHR ''}'' \<notin> set code \<and>
    CHR ''('' \<notin> set code \<and> CHR '')'' \<notin> set code \<longrightarrow>
      calculateComplexity code lang = Low)"
proof (intro conjI impI)
  assume "complexityCount code1 \<le> complexityCount code2"
  then show "levelRank (calculateComplexity code1 lang1)
      \<le> levelRank (calculateComplexity code2 lang2)"
    by (rule complexity_monotone)
next
  assume plain: "CHR 0x0A \<notin> set code \<and>
    (\<forall>kw \<in> set controlKeywords. \<not> strIncludes code kw) \<and>
    CHR ''{'' \<notin> set code \<and> CHR ''}'' \<notin> set code \<and>
    CHR ''('' \<notin> set code \<and> CHR '')'' \<notin> set code"
  then have "complexityCount code = 0"
    using complexity_plain by blast
  then show "calculateComplexity code lang = Low"
    by (simp add: calculateComplexity_def)
qed

theorem C8_complexity_monotone_and_low_witness:
  "complexityCount ''total = price + tax;'' \<le> complexityCount ''if (a) {{{{{{{{{ b }'' \<and>
   calculateComplexity ''total = price + tax;'' ''javascript'' = Low \<and>
   calculateComplexity ''if (a) {{{{{{{{{ b }'' ''javascript'' = Medium \<and>
   levelRank (calculateComplexity ''total = price + tax;'' ''javascript'')
     \<le> levelRank (calculateComplexity ''if (a) {{{{{{{{{ b }'' ''javascript'')"
proof -
  have le: "complexityCount ''total = price + tax;'' \<le> complexityCount ''if (a) {{{{{{{{{ b }''"
    by code_simp
  have plain: "CHR 0x0A \<notin> set ''total = price + tax;'' \<and>
    (\<forall>kw \<in> set controlKeywords. \<not> strIncludes ''total = price + tax;'' kw) \<and>
    CHR ''{'' \<notin> set ''total = price + tax;'' \<and> CHR ''}'' \<notin> set ''total = price + tax;'' \<and>
    CHR ''('' \<notin> set ''total = price + tax;'' \<and> CHR '')'' \<notin> set ''total = price + tax;''"
    by code_simp
  have medium: "calculateComplexity ''if (a) {{{{{{{{{ b }'' ''javascript'' = Medium"
    by code_simp
  from C8_complexity_monotone_and_low
    [of "''total = price + tax;''" "''if (a) {{{{{{{{{ b }''" "''javascript''" "''javascript''"
        "''total = price + tax;''" "''javascript''"]
    le plain medium
  show ?thesis by simp
qed

section \<open>Where the code departs from the specification\<close>





text \<open>
  Claim C5. For the code \<^verbatim>\<open>def test():\nprint("test")\<close> and the language python the
  report should hold a finding \<^verbatim>\<open>'Incorrect indentation'\<close>. Both lines start with no
  white space, and 0 is a multiple of 4: no checker yields a finding for this input, and
  the bug finder returns the empty list.
\<close>

theorem C5_python_example_no_finding:
  \<open>analyzePotentialBugs limit ''def test():\<newline>print("test")'' ''python'' = Inr []\<close>
proof -
  have s: \<open>checkSyntaxErrors ''def test():\<newline>print("test")'' ''python'' = Inr []\<close>
    by code_simp
  have others: \<open>checkRuntimeErrors ''def test():\<newline>print("test")'' ''python'' = []\<close>
    \<open>checkLogicalErrors ''def test():\<newline>print("test")'' ''python'' = []\<close>
    \<open>checkSecurityIssues ''def test():\<newline>print("test")'' ''python'' = []\<close>
    by code_simp+
  have \<open>analyzePotentialBugs limit ''def test():\<newline>print("test")'' ''python'' =
      Inr ([] @ checkRuntimeErrors ''def test():\<newline>print("test")'' ''python''
           @ checkLogicalErrors ''def test():\<newline>print("test")'' ''python''
           @ checkSecurityIssues ''def test():\<newline>print("test")'' ''python'')\<close>
    by (rule analyzePotentialBugs_within [OF s]) (simp_all add: others)
  then show ?thesis by (simp add: others)
qed

text \<open>
  Claim C7. The second \<^verbatim>\<open>return\<close> is searched from 7 characters after the start of
  the first, one more than the length of \<^verbatim>\<open>return\<close>: a text where \<^verbatim>\<open>return\<close> occurs
  twice, the second time right after the first, gets no finding.
\<close>

theorem C7_adjacent_returns_no_finding:
  "occurrencesOf ''returnreturn'' ''return'' = [0, 6] \<and>
   checkLogicalErrors ''returnreturn'' ''javascript'' = []"
  by code_simp

text \<open>
  Claim C9. The best practices of a language that the table does not hold should be those
  of javascript. The table is read with \<^verbatim>\<open>practices[language]\<close>, which also finds the
  members the table inherits: for the language \<^verbatim>\<open>constructor\<close> the result is the
  inherited member, not the list of javascript.
\<close>

theorem C9_inherited_name_no_fallback:
  "''constructor'' \<notin> set knownLanguages \<and>
   generateBestPractices ''constructor'' = Inherited ''constructor'' \<and>
   generateBestPractices ''javascript'' = StrList javascriptPractices"
  by (simp add: knownLanguages_def generateBestPractices_def practices_def orElse_def
      inheritedProp_def objectPrototypeKeys_def)

text \<open>For every other language outside the table the fallback is the list of javascript.\<close>

lemma generateBestPractices_fallback:
  assumes "lang \<notin> set knownLanguages" and "lang \<notin> set objectPrototypeKeys"
  shows "generateBestPractices lang = StrList javascriptPractices"
  using assms
  by (simp add: knownLanguages_def generateBestPractices_def practices_def orElse_def
      inheritedProp_def)

lemma generateBestPractices_fallback_example:
  "generateBestPractices ''ruby'' = StrList javascriptPractices"
  by (rule generateBestPractices_fallback)
    (simp_all add: knownLanguages_def objectPrototypeKeys_def)

end
